theory Spec2Isabelle
  imports Complex_Main "HOL-Library.Word"
begin

section \<open>JavaScript values as App.jsx handles them\<close>

text \<open>
  A JavaScript string is a sequence of UTF-16 code units. \<open>str\<close> writes an ASCII
  literal of the source as such a sequence.
\<close>

type_synonym code_unit = "16 word"
type_synonym jsstring = "code_unit list"

definition str :: "string \<Rightarrow> jsstring" where
  "str s = map of_char s"

text \<open>
  Numbers. The program reads numbers from text (\<open>Number(amount)\<close>, JSON payloads), tests
  them (\<open>isNaN\<close>, truthiness) and passes them on; it never computes with them. \<open>Finite q\<close>
  stands for the binary64 value nearest to \<open>q\<close>: overflow to an infinity and underflow to
  zero are decided by \<open>number_of\<close>, the rounding in between and the sign of zero are not
  represented.
\<close>

datatype jsnum = NaN | PosInfinity | NegInfinity | Finite rat

datatype jsval =
    JUndefined
  | JNull
  | JBool bool
  | JNum jsnum
  | JStr jsstring
  | JArr "jsval list"
  | JObj "(jsstring \<times> jsval) list"

text \<open>What a \<open>throw\<close> carries: the built-in errors and the rejections of axios.\<close>

datatype exn = TypeError | SyntaxError | NetworkError | BadStatus nat

text \<open>A call of the platform either throws or returns.\<close>

datatype 'a completion = Throws | Returns 'a

subsection \<open>Reading numbers from text\<close>

definition number_of :: "bool \<Rightarrow> rat \<Rightarrow> jsnum" where
  "number_of neg m =
     (if 2 ^ 1024 - 2 ^ 970 \<le> m then (if neg then NegInfinity else PosInfinity)
      else if m \<le> 1 / 2 ^ 1075 then Finite 0
      else Finite (if neg then - m else m))"

definition is_digit :: "code_unit \<Rightarrow> bool" where
  "is_digit c \<longleftrightarrow> 0x30 \<le> c \<and> c \<le> 0x39"

definition is_hex_digit :: "code_unit \<Rightarrow> bool" where
  "is_hex_digit c \<longleftrightarrow> is_digit c \<or> (0x61 \<le> c \<and> c \<le> 0x66) \<or> (0x41 \<le> c \<and> c \<le> 0x46)"

definition digit_of :: "code_unit \<Rightarrow> nat" where
  "digit_of c =
     (if is_digit c then unat c - 0x30
      else if 0x61 \<le> c \<and> c \<le> 0x66 then unat c - 0x57
      else unat c - 0x37)"

definition digits_value :: "nat \<Rightarrow> jsstring \<Rightarrow> nat" where
  "digits_value base ds = foldl (\<lambda>a c. base * a + digit_of c) 0 ds"

definition scale10 :: "rat \<Rightarrow> int \<Rightarrow> rat" where
  "scale10 q e = (if 0 \<le> e then q * 10 ^ nat e else q / 10 ^ nat (- e))"

definition decimal_mv :: "jsstring \<Rightarrow> jsstring \<Rightarrow> int \<Rightarrow> rat" where
  "decimal_mv ip fp e = scale10 (of_nat (digits_value 10 (ip @ fp))) (e - int (length fp))"

definition all_digits :: "jsstring \<Rightarrow> bool" where
  "all_digits ds \<longleftrightarrow> ds \<noteq> [] \<and> list_all is_digit ds"

text \<open>\<open>SignedInteger\<close>: digits with an optional sign.\<close>

definition signed_integer :: "jsstring \<Rightarrow> int option" where
  "signed_integer cs =
     (case cs of
        [] \<Rightarrow> None
      | c # r \<Rightarrow>
          if c = 0x2B then (if all_digits r then Some (int (digits_value 10 r)) else None)
          else if c = 0x2D then (if all_digits r then Some (- int (digits_value 10 r)) else None)
          else if all_digits cs then Some (int (digits_value 10 cs)) else None)"

text \<open>The rest of a literal after its mantissa: nothing, or \<open>e\<close>/\<open>E\<close> and a signed integer.\<close>

definition exponent_part :: "jsstring \<Rightarrow> int option" where
  "exponent_part cs =
     (case cs of
        [] \<Rightarrow> Some 0
      | c # r \<Rightarrow> if c = 0x65 \<or> c = 0x45 then signed_integer r else None)"

text \<open>
  \<open>StrUnsignedDecimalLiteral\<close> without \<open>Infinity\<close>: \<open>digits . digits? exp?\<close>,
  \<open>. digits exp?\<close> or \<open>digits exp?\<close>; the result is the mathematical value.
\<close>

definition unsigned_decimal :: "jsstring \<Rightarrow> rat option" where
  "unsigned_decimal cs =
     (let ip = takeWhile is_digit cs; r1 = dropWhile is_digit cs in
      case r1 of
        [] \<Rightarrow> if ip = [] then None else Some (decimal_mv ip [] 0)
      | c # r \<Rightarrow>
          if c = 0x2E then
            (let fp = takeWhile is_digit r in
             if ip = [] \<and> fp = [] then None
             else map_option (decimal_mv ip fp) (exponent_part (dropWhile is_digit r)))
          else if ip = [] then None
          else map_option (decimal_mv ip []) (exponent_part r1))"

text \<open>\<open>0x\<close>, \<open>0o\<close> and \<open>0b\<close> literals (either case of the letter), unsigned.\<close>

definition non_decimal :: "jsstring \<Rightarrow> nat option" where
  "non_decimal cs =
     (case cs of
        z # x # ds \<Rightarrow>
          if z \<noteq> 0x30 \<or> ds = [] then None
          else if (x = 0x78 \<or> x = 0x58) \<and> list_all is_hex_digit ds then Some (digits_value 16 ds)
          else if (x = 0x6F \<or> x = 0x4F) \<and> list_all (\<lambda>c. 0x30 \<le> c \<and> c \<le> 0x37) ds
            then Some (digits_value 8 ds)
          else if (x = 0x62 \<or> x = 0x42) \<and> list_all (\<lambda>c. c = 0x30 \<or> c = 0x31) ds
            then Some (digits_value 2 ds)
          else None
      | _ \<Rightarrow> None)"

text \<open>\<open>StrWhiteSpaceChar\<close>: the white space and line terminators of ECMAScript.\<close>

definition StrWhiteSpaceChar :: "code_unit \<Rightarrow> bool" where
  "StrWhiteSpaceChar c \<longleftrightarrow>
     (0x09 \<le> c \<and> c \<le> 0x0D) \<or> c = 0x20 \<or> c = 0xA0 \<or> c = 0x1680 \<or>
     (0x2000 \<le> c \<and> c \<le> 0x200A) \<or> c = 0x2028 \<or> c = 0x2029 \<or> c = 0x202F \<or>
     c = 0x205F \<or> c = 0x3000 \<or> c = 0xFEFF"

definition trim :: "jsstring \<Rightarrow> jsstring" where
  "trim s = rev (dropWhile StrWhiteSpaceChar (rev (dropWhile StrWhiteSpaceChar s)))"

text \<open>\<open>Number(s)\<close> for a string \<open>s\<close> (the abstract operation StringToNumber).\<close>

definition Number :: "jsstring \<Rightarrow> jsnum" where
  "Number s =
     (let t = trim s in
      if t = [] then Finite 0
      else case non_decimal t of
        Some n \<Rightarrow> number_of False (of_nat n)
      | None \<Rightarrow>
          (let neg = (hd t = 0x2D);
               u = (if hd t = 0x2B \<or> hd t = 0x2D then tl t else t)
           in if u = str ''Infinity'' then (if neg then NegInfinity else PosInfinity)
              else case unsigned_decimal u of
                None \<Rightarrow> NaN
              | Some m \<Rightarrow> number_of neg m))"

definition isNaN :: "jsnum \<Rightarrow> bool" where
  "isNaN n \<longleftrightarrow> n = NaN"

subsection \<open>\<open>JSON.parse\<close>\<close>

text \<open>
  The text is cut into tokens, and the tokens are read by a pushdown automaton whose stack
  holds the arrays and objects still open. A text outside the JSON grammar is a
  \<open>SyntaxError\<close>.
\<close>

datatype token =
    TLBrace | TRBrace | TLBracket | TRBracket | TColon | TComma
  | TString jsstring | TNumber jsnum | TTrue | TFalse | TNull

definition escape_char :: "code_unit \<Rightarrow> code_unit option" where
  "escape_char e =
     (if e = 0x22 \<or> e = 0x5C \<or> e = 0x2F then Some e
      else if e = 0x62 then Some 0x08
      else if e = 0x66 then Some 0x0C
      else if e = 0x6E then Some 0x0A
      else if e = 0x72 then Some 0x0D
      else if e = 0x74 then Some 0x09
      else None)"

text \<open>
  The characters of a string after its opening quote, up to the closing quote: the
  contents with the escapes resolved, and the text that follows.
\<close>

fun lex_string :: "jsstring \<Rightarrow> (jsstring \<times> jsstring) option" where
  "lex_string [] = None"
| "lex_string (c # cs) =
     (if c = 0x22 then Some ([], cs)
      else if c < 0x20 then None
      else if c \<noteq> 0x5C then map_option (apfst ((#) c)) (lex_string cs)
      else (case cs of
              [] \<Rightarrow> None
            | e # r \<Rightarrow>
                if e = 0x75 then
                  (case r of
                     h1 # h2 # h3 # h4 # r' \<Rightarrow>
                       if list_all is_hex_digit [h1, h2, h3, h4]
                       then map_option (apfst ((#) (of_nat (digits_value 16 [h1, h2, h3, h4]))))
                              (lex_string r')
                       else None
                   | _ \<Rightarrow> None)
                else (case escape_char e of
                        None \<Rightarrow> None
                      | Some u \<Rightarrow> map_option (apfst ((#) u)) (lex_string r))))"

text \<open>A JSON number: \<open>-? (0 | [1-9] digits) (. digits)? exp?\<close>.\<close>

definition JSONNumber :: "jsstring \<Rightarrow> jsnum option" where
  "JSONNumber t =
     (let neg = (t \<noteq> [] \<and> hd t = 0x2D);
          u = (if neg then tl t else t);
          ip = takeWhile is_digit u;
          r1 = dropWhile is_digit u
      in if ip = [] \<or> (hd ip = 0x30 \<and> 1 < length ip) then None
         else case r1 of
           [] \<Rightarrow> Some (number_of neg (decimal_mv ip [] 0))
         | c # r \<Rightarrow>
             if c = 0x2E then
               (let fp = takeWhile is_digit r in
                if fp = [] then None
                else map_option (\<lambda>e. number_of neg (decimal_mv ip fp e))
                       (exponent_part (dropWhile is_digit r)))
             else map_option (\<lambda>e. number_of neg (decimal_mv ip [] e)) (exponent_part r1))"

definition is_json_ws :: "code_unit \<Rightarrow> bool" where
  "is_json_ws c \<longleftrightarrow> c = 0x20 \<or> c = 0x09 \<or> c = 0x0A \<or> c = 0x0D"

definition is_number_char :: "code_unit \<Rightarrow> bool" where
  "is_number_char c \<longleftrightarrow> is_digit c \<or> c = 0x2B \<or> c = 0x2D \<or> c = 0x2E \<or> c = 0x65 \<or> c = 0x45"

function lex :: "jsstring \<Rightarrow> token list option" where
  "lex [] = Some []"
| "lex (c # cs) =
     (if is_json_ws c then lex cs
      else if c = 0x7B then map_option ((#) TLBrace) (lex cs)
      else if c = 0x7D then map_option ((#) TRBrace) (lex cs)
      else if c = 0x5B then map_option ((#) TLBracket) (lex cs)
      else if c = 0x5D then map_option ((#) TRBracket) (lex cs)
      else if c = 0x3A then map_option ((#) TColon) (lex cs)
      else if c = 0x2C then map_option ((#) TComma) (lex cs)
      else if c = 0x22 then
        (case lex_string cs of
           None \<Rightarrow> None
         | Some (s, r) \<Rightarrow> map_option ((#) (TString s)) (lex r))
      else if c = 0x2D \<or> is_digit c then
        (case JSONNumber (c # takeWhile is_number_char cs) of
           None \<Rightarrow> None
         | Some n \<Rightarrow> map_option ((#) (TNumber n)) (lex (dropWhile is_number_char cs)))
      else if take 4 (c # cs) = str ''true'' then map_option ((#) TTrue) (lex (drop 3 cs))
      else if take 5 (c # cs) = str ''false'' then map_option ((#) TFalse) (lex (drop 4 cs))
      else if take 4 (c # cs) = str ''null'' then map_option ((#) TNull) (lex (drop 3 cs))
      else None)"
  by pat_completeness auto
termination
proof -
  have shorter: "length r \<le> length cs" if "lex_string cs = Some (s, r)" for cs s r
    using that
  proof (induction cs arbitrary: s r rule: lex_string.induct)
    case 1
    then show ?case by simp
  next
    case (2 c cs)
    show ?case
    proof (cases "c = 0x22")
      case True
      with "2.prems" show ?thesis by simp
    next
      case quote: False
      with "2.prems" have nlow: "\<not> c < 0x20"
        by (auto split: if_splits)
      show ?thesis
      proof (cases "c = 0x5C")
        case False
        with quote nlow "2.prems" obtain s' where tail: "lex_string cs = Some (s', r)"
          by auto
        from "2.IH"(1) [OF quote nlow False tail] show ?thesis
          by simp
      next
        case True
        then have esc: "\<not> c \<noteq> 0x5C"
          by simp
        from True quote nlow "2.prems" obtain e rest where cs: "cs = e # rest"
          by (cases cs) auto
        show ?thesis
        proof (cases "e = 0x75")
          case False
          with True quote nlow cs "2.prems" obtain u s' where
            u: "escape_char e = Some u" and tail: "lex_string rest = Some (s', r)"
            by (auto split: option.splits)
          from "2.IH"(3) [OF quote nlow esc cs False u tail] cs show ?thesis
            by simp
        next
          case u: True
          with True quote nlow cs "2.prems" obtain h1 h2 h3 h4 r' s' where
            rest: "rest = h1 # h2 # h3 # h4 # r'" and
            hex: "list_all is_hex_digit [h1, h2, h3, h4]" and
            tail: "lex_string r' = Some (s', r)"
            by (auto split: if_splits list.splits)
          from "2.IH"(2) [OF quote nlow esc cs u rest refl refl refl hex tail] cs rest
          show ?thesis
            by simp
        qed
      qed
    qed
  qed
  show ?thesis
  proof (relation "measure length")
    fix c cs x2 x y
    assume "lex_string cs = Some x2" "(x, y) = x2"
    then have "lex_string cs = Some (x, y)" by simp
    then show "(y, c # cs) \<in> measure length"
      by (auto dest: shorter)
  next
    fix c :: code_unit and cs :: jsstring
    show "(dropWhile is_number_char cs, c # cs) \<in> measure length"
      by (simp add: length_dropWhile_le le_imp_less_Suc)
  qed auto
qed

fun obj_put :: "jsstring \<Rightarrow> jsval \<Rightarrow> (jsstring \<times> jsval) list \<Rightarrow> (jsstring \<times> jsval) list" where
  "obj_put k v [] = [(k, v)]"
| "obj_put k v (p # ps) = (if fst p = k then (k, v) # ps else p # obj_put k v ps)"

datatype frame =
    FArr "jsval list"
  | FObj "(jsstring \<times> jsval) list"
  | FMember "(jsstring \<times> jsval) list" jsstring

datatype mode = MValue | MArrStart | MObjStart | MKey | MColon jsstring | MAfter jsval

definition begin_value :: "frame list \<Rightarrow> token \<Rightarrow> (mode \<times> frame list) option" where
  "begin_value st t =
     (case t of
        TLBracket \<Rightarrow> Some (MArrStart, FArr [] # st)
      | TLBrace \<Rightarrow> Some (MObjStart, FObj [] # st)
      | TString s \<Rightarrow> Some (MAfter (JStr s), st)
      | TNumber n \<Rightarrow> Some (MAfter (JNum n), st)
      | TTrue \<Rightarrow> Some (MAfter (JBool True), st)
      | TFalse \<Rightarrow> Some (MAfter (JBool False), st)
      | TNull \<Rightarrow> Some (MAfter JNull, st)
      | _ \<Rightarrow> None)"

definition transition :: "mode \<Rightarrow> frame list \<Rightarrow> token \<Rightarrow> (mode \<times> frame list) option" where
  "transition m st t =
     (case m of
        MValue \<Rightarrow> begin_value st t
      | MArrStart \<Rightarrow>
          (if t = TRBracket
           then (case st of FArr _ # st' \<Rightarrow> Some (MAfter (JArr []), st') | _ \<Rightarrow> None)
           else begin_value st t)
      | MObjStart \<Rightarrow>
          (case t of
             TRBrace \<Rightarrow> (case st of FObj _ # st' \<Rightarrow> Some (MAfter (JObj []), st') | _ \<Rightarrow> None)
           | TString k \<Rightarrow> Some (MColon k, st)
           | _ \<Rightarrow> None)
      | MKey \<Rightarrow> (case t of TString k \<Rightarrow> Some (MColon k, st) | _ \<Rightarrow> None)
      | MColon k \<Rightarrow>
          (if t = TColon
           then (case st of FObj ms # st' \<Rightarrow> Some (MValue, FMember ms k # st') | _ \<Rightarrow> None)
           else None)
      | MAfter v \<Rightarrow>
          (case st of
             FArr vs # st' \<Rightarrow>
               if t = TComma then Some (MValue, FArr (vs @ [v]) # st')
               else if t = TRBracket then Some (MAfter (JArr (vs @ [v])), st')
               else None
           | FMember ms k # st' \<Rightarrow>
               if t = TComma then Some (MKey, FObj (obj_put k v ms) # st')
               else if t = TRBrace then Some (MAfter (JObj (obj_put k v ms)), st')
               else None
           | _ \<Rightarrow> None))"

fun parse_tokens :: "mode \<Rightarrow> frame list \<Rightarrow> token list \<Rightarrow> jsval option" where
  "parse_tokens m st [] = (case m of MAfter v \<Rightarrow> (if st = [] then Some v else None) | _ \<Rightarrow> None)"
| "parse_tokens m st (t # ts) =
     (case transition m st t of
        None \<Rightarrow> None
      | Some (m', st') \<Rightarrow> parse_tokens m' st' ts)"

definition JSON_parse :: "jsstring \<Rightarrow> exn + jsval" where
  "JSON_parse text =
     (case lex text of
        None \<Rightarrow> Inl SyntaxError
      | Some ts \<Rightarrow>
          (case parse_tokens MValue [] ts of
             None \<Rightarrow> Inl SyntaxError
           | Some v \<Rightarrow> Inr v))"

subsection \<open>Operators of the language\<close>

text \<open>Truthiness, as \<open>!x\<close>, \<open>x ? a : b\<close> and \<open>x || y\<close> test it.\<close>

fun truthy :: "jsval \<Rightarrow> bool" where
  "truthy JUndefined = False"
| "truthy JNull = False"
| "truthy (JBool b) = b"
| "truthy (JNum n) = (n \<noteq> NaN \<and> n \<noteq> Finite 0)"
| "truthy (JStr s) = (s \<noteq> [])"
| "truthy (JArr _) = True"
| "truthy (JObj _) = True"

text \<open>
  \<open>v.k\<close> for the property names the program reads off payloads, catalog entries and
  history entries (\<open>data\<close>, \<open>result\<close>, \<open>rate\<close>, \<open>fetchedAt\<close>, \<open>name\<close>, \<open>id\<close>,
  \<open>amount\<close>, \<open>from\<close>, \<open>to\<close>, \<open>at\<close>): only an object that holds the key answers with a
  value, \<open>null\<close> and \<open>undefined\<close> throw. (Of these names only \<open>at\<close> is a method of arrays
  and strings; the program reads it off a value whose \<open>result\<close> it has called a method
  of, which an array or a string does not survive.)
\<close>

fun property :: "jsval \<Rightarrow> jsstring \<Rightarrow> exn + jsval" where
  "property JUndefined k = Inl TypeError"
| "property JNull k = Inl TypeError"
| "property (JObj ps) k = Inr (case map_of ps k of None \<Rightarrow> JUndefined | Some v \<Rightarrow> v)"
| "property v k = Inr JUndefined"

text \<open>\<open>v.k\<close> where it does not throw.\<close>

definition field :: "jsval \<Rightarrow> jsstring \<Rightarrow> jsval" where
  "field v k = (case property v k of Inl e \<Rightarrow> JUndefined | Inr x \<Rightarrow> x)"

text \<open>Iterating a string yields its code points, a surrogate pair as one string.\<close>

fun code_points :: "jsstring \<Rightarrow> jsstring list" where
  "code_points (h # l # cs) =
     (if 0xD800 \<le> h \<and> h \<le> 0xDBFF \<and> 0xDC00 \<le> l \<and> l \<le> 0xDFFF
      then [h, l] # code_points cs
      else [h] # code_points (l # cs))"
| "code_points [c] = [[c]]"
| "code_points [] = []"

text \<open>
  What the render calls and coerces. A value read from JSON is never callable, so a
  method is found on the prototype unless the object holds a property of that name.
  \<open>v.toLocaleString(\<dots>)\<close> returns for numbers, strings and booleans; an array asks each
  element other than \<open>null\<close> and \<open>undefined\<close>; an object goes through its \<open>toString\<close>.
\<close>

fun toLocaleString_returns :: "jsval \<Rightarrow> bool" where
  "toLocaleString_returns JUndefined = False"
| "toLocaleString_returns JNull = False"
| "toLocaleString_returns (JArr xs) =
     (\<forall>e \<in> set xs. e = JNull \<or> e = JUndefined \<or> toLocaleString_returns e)"
| "toLocaleString_returns (JObj ps) =
     (map_of ps (str ''toLocaleString'') = None \<and> map_of ps (str ''toString'') = None)"
| "toLocaleString_returns v = True"

text \<open>
  The coercion to a primitive, as in \<open>'' + v\<close> (the key of an element) and \<open>new Date(v)\<close>:
  an object answers through \<open>Object.prototype.toString\<close> unless it holds a \<open>toString\<close> of
  its own, an array joins its elements.
\<close>

fun to_primitive_returns :: "jsval \<Rightarrow> bool" where
  "to_primitive_returns (JArr xs) = (\<forall>e \<in> set xs. to_primitive_returns e)"
| "to_primitive_returns (JObj ps) = (map_of ps (str ''toString'') = None)"
| "to_primitive_returns v = True"

text \<open>
  What React takes as a child of an element: text and numbers, nothing for booleans,
  \<open>null\<close> and \<open>undefined\<close>, the members of an array; an object makes it throw.
\<close>

fun valid_child :: "jsval \<Rightarrow> bool" where
  "valid_child (JObj ps) = False"
| "valid_child (JArr xs) = (\<forall>e \<in> set xs. valid_child e)"
| "valid_child v = True"

text \<open>The values of \<open>Object.entries(v)\<close>.\<close>

definition entry_values :: "jsval \<Rightarrow> jsval list" where
  "entry_values v =
     (case v of
        JObj ps \<Rightarrow> map snd ps
      | JArr xs \<Rightarrow> xs
      | JStr s \<Rightarrow> map (\<lambda>c. JStr [c]) s
      | _ \<Rightarrow> [])"

text \<open>\<open>...v\<close> inside an array literal: the elements of an iterable, a TypeError otherwise.\<close>

fun spread :: "jsval \<Rightarrow> exn + jsval list" where
  "spread (JArr xs) = Inr xs"
| "spread (JStr s) = Inr (map JStr (code_points s))"
| "spread v = Inl TypeError"

section \<open>The component \<open>App\<close>\<close>

text \<open>
  The cells of \<open>useState\<close>, in the order of the source. \<open>from\<close> and \<open>to\<close> carry a
  suffix, \<open>from\<close> being a keyword here.
\<close>

record ui_state =
  currencies :: jsval
  from_cur :: jsstring
  to_cur :: jsstring
  amount :: jsstring
  result :: jsval
  rate :: jsval
  loading :: bool
  loadingCurrencies :: bool
  history :: jsval

text \<open>
  A call of \<open>onConvert\<close> that has reached its \<open>await\<close>. The rest of the function runs
  when the request settles, on the \<open>from\<close>, \<open>to\<close>, \<open>amount\<close> and \<open>history\<close> of the
  render whose handler was called: the closure keeps them, whatever the state has become.
\<close>

record call =
  c_from :: jsstring
  c_to :: jsstring
  c_amount :: jsstring
  c_history :: jsval
  awaiting :: bool

text \<open>The two requests of the program, with the \<open>params\<close> of the second.\<close>

datatype request = GetCurrencies | GetConvert jsstring jsstring jsnum

text \<open>
  How \<open>axios.get\<close> settles: rejected (no response, or a status outside 2xx), or resolved
  with a response, of which the program reads \<open>resp.data\<close> only.
\<close>

datatype axios_outcome = Rejected exn | Resolved jsval

text \<open>
  The component and what it has done to its surroundings: the state cells, the flag
  \<open>cancelled\<close> of the catalog effect, the promises not yet settled, and the traces of the
  requests sent, of \<open>console.error\<close>, of \<open>alert\<close> and of the values whose JSON text
  \<open>localStorage.setItem\<close> has stored. \<open>setItem_throws\<close> is the surroundings' part: whether
  a write to the storage raises (quota, storage disabled).

  \<open>live\<close> says that the component is mounted: its first render has returned, no later
  render has thrown, and it has not been unmounted. \<open>history_set\<close> says that \<open>setHistory\<close>
  has been called since the last render, so that the storage effect is due. The cells
  hold what the setters were last called with; once \<open>live\<close> is false no render shows them
  (React drops the updates of an unmounted component).
\<close>

record world =
  ui :: ui_state
  cancelled :: bool
  catalog_awaiting :: bool
  calls :: "call list"
  requests :: "request list"
  console :: "exn list"
  alerts :: "jsstring list"
  setItem_throws :: bool
  writes :: "jsval list"
  live :: bool
  history_set :: bool

subsection \<open>\<open>useLocalStorage\<close>\<close>

text \<open>
  The initialiser of the state cell. \<open>got\<close> is what \<open>window.localStorage.getItem(key)\<close>
  does: it throws, or returns \<open>null\<close> (\<open>None\<close>) or the stored text. \<open>null\<close> and the empty
  text are falsy; a throw of \<open>getItem\<close> or of \<open>JSON.parse\<close> is caught.
\<close>

definition useLocalStorage_init :: "jsstring option completion \<Rightarrow> jsval \<Rightarrow> jsval" where
  "useLocalStorage_init got initialValue =
     (case got of
        Throws \<Rightarrow> initialValue
      | Returns None \<Rightarrow> initialValue
      | Returns (Some item) \<Rightarrow>
          if item = [] then initialValue
          else (case JSON_parse item of
                  Inl e \<Rightarrow> initialValue
                | Inr v \<Rightarrow> v))"

text \<open>
  The effect \<open>try { setItem(key, JSON.stringify(value)) } catch {}\<close>. The text that
  \<open>JSON.stringify\<close> produces is not computed (it prints binary64 numbers); a write that
  succeeds is recorded by the value written.
\<close>

definition useLocalStorage_effect :: "world \<Rightarrow> world" where
  "useLocalStorage_effect w =
     (if setItem_throws w then w else w\<lparr>writes := writes w @ [history (ui w)]\<rparr>)"

subsection \<open>The setters\<close>

definition setCurrencies :: "jsval \<Rightarrow> world \<Rightarrow> world" where
  "setCurrencies v w = w\<lparr>ui := (ui w)\<lparr>currencies := v\<rparr>\<rparr>"

definition setFrom :: "jsstring \<Rightarrow> world \<Rightarrow> world" where
  "setFrom v w = w\<lparr>ui := (ui w)\<lparr>from_cur := v\<rparr>\<rparr>"

definition setTo :: "jsstring \<Rightarrow> world \<Rightarrow> world" where
  "setTo v w = w\<lparr>ui := (ui w)\<lparr>to_cur := v\<rparr>\<rparr>"

definition setAmount :: "jsstring \<Rightarrow> world \<Rightarrow> world" where
  "setAmount v w = w\<lparr>ui := (ui w)\<lparr>amount := v\<rparr>\<rparr>"

definition setResult :: "jsval \<Rightarrow> world \<Rightarrow> world" where
  "setResult v w = w\<lparr>ui := (ui w)\<lparr>result := v\<rparr>\<rparr>"

definition setRate :: "jsval \<Rightarrow> world \<Rightarrow> world" where
  "setRate v w = w\<lparr>ui := (ui w)\<lparr>rate := v\<rparr>\<rparr>"

definition setLoading :: "bool \<Rightarrow> world \<Rightarrow> world" where
  "setLoading v w = w\<lparr>ui := (ui w)\<lparr>loading := v\<rparr>\<rparr>"

definition setLoadingCurrencies :: "bool \<Rightarrow> world \<Rightarrow> world" where
  "setLoadingCurrencies v w = w\<lparr>ui := (ui w)\<lparr>loadingCurrencies := v\<rparr>\<rparr>"

text \<open>
  \<open>setHistory\<close> is the setter that \<open>useLocalStorage\<close> returns: the next render has a new
  \<open>value\<close>, so the storage effect is due once that render is committed.
\<close>

definition setHistory :: "jsval \<Rightarrow> world \<Rightarrow> world" where
  "setHistory v w = w\<lparr>ui := (ui w)\<lparr>history := v\<rparr>, history_set := True\<rparr>"

definition console_error :: "exn \<Rightarrow> world \<Rightarrow> world" where
  "console_error e w = w\<lparr>console := console w @ [e]\<rparr>"

definition alert :: "jsstring \<Rightarrow> world \<Rightarrow> world" where
  "alert msg w = w\<lparr>alerts := alerts w @ [msg]\<rparr>"

subsection \<open>The render\<close>

text \<open>
  Whether the body of \<open>App\<close> returns and React accepts what it returns, for given cells.
  A render that throws takes the component down (there is no error boundary).

  The names in \<open>currencyList\<close>, from
  \<open>Object.entries(currencies || {}).map(([code, meta]) => ({ code, name: meta.name }))\<close>;
  the codes and the order that \<open>sort\<close> gives them are not represented.
\<close>

fun names_of :: "jsval list \<Rightarrow> exn + jsval list" where
  "names_of [] = Inr []"
| "names_of (meta # metas) =
     (case property meta (str ''name'') of
        Inl e \<Rightarrow> Inl e
      | Inr name \<Rightarrow> (case names_of metas of Inl e \<Rightarrow> Inl e | Inr names \<Rightarrow> Inr (name # names)))"

definition currencyList :: "jsval \<Rightarrow> exn + jsval list" where
  "currencyList catalog =
     names_of (entry_values (if truthy catalog then catalog else JObj []))"

text \<open>
  One item of \<open>history.map(h => \<dots>)\<close>: the key \<open>h.id\<close>, the children \<open>h.amount\<close>,
  \<open>h.from\<close>, \<open>h.to\<close> and \<open>h.rate\<close>, the call \<open>h.result.toLocaleString(\<dots>)\<close> and
  \<open>new Date(h.at)\<close>.
\<close>

definition history_item_returns :: "jsval \<Rightarrow> bool" where
  "history_item_returns h \<longleftrightarrow>
     h \<noteq> JNull \<and> h \<noteq> JUndefined \<and>
     to_primitive_returns (field h (str ''id'')) \<and>
     valid_child (field h (str ''amount'')) \<and> valid_child (field h (str ''from'')) \<and>
     toLocaleString_returns (field h (str ''result'')) \<and>
     valid_child (field h (str ''to'')) \<and> valid_child (field h (str ''rate'')) \<and>
     to_primitive_returns (field h (str ''at''))"

text \<open>
  \<open>history.length === 0 ? \<dots> : history.map(\<dots>)\<close>: reading \<open>length\<close> off \<open>null\<close> throws;
  a length other than the number 0 leads to \<open>history.map\<close>, which only an array has.
\<close>

definition history_returns :: "jsval \<Rightarrow> bool" where
  "history_returns v =
     (case v of
        JArr hs \<Rightarrow> list_all history_item_returns hs
      | JStr s \<Rightarrow> s = []
      | JObj ps \<Rightarrow> map_of ps (str ''length'') = Some (JNum (Finite 0))
      | _ \<Rightarrow> False)"

text \<open>
  The whole body: \<open>currencyList\<close>, the options of the two selects once the catalog has
  loaded, the block \<open>rate !== null && result !== null && \<dots>\<close> with \<open>Rate: {rate}\<close> and
  \<open>result.toLocaleString(\<dots>)\<close>, and the history panel.
\<close>

definition render_returns :: "ui_state \<Rightarrow> bool" where
  "render_returns s =
     (case currencyList (currencies s) of
        Inl e \<Rightarrow> False
      | Inr names \<Rightarrow>
          (loadingCurrencies s \<or> list_all valid_child names) \<and>
          (rate s = JNull \<or> result s = JNull \<or>
             (valid_child (rate s) \<and> toLocaleString_returns (result s))) \<and>
          history_returns (history s))"

subsection \<open>Mounting and the catalog effect\<close>

text \<open>\<open>fetchCurrencies\<close> up to its \<open>await\<close>.\<close>

definition fetchCurrencies :: "world \<Rightarrow> world" where
  "fetchCurrencies w =
     (setLoadingCurrencies True w)
       \<lparr>requests := requests w @ [GetCurrencies], catalog_awaiting := True\<rparr>"

text \<open>
  The first render and, when it returns, its effects in the order of the source: the
  storage effect, then the catalog effect with \<open>cancelled = false\<close>. When the first render
  throws, the component is never mounted and no effect runs.
\<close>

definition App_mount :: "jsstring option completion \<Rightarrow> bool \<Rightarrow> world" where
  "App_mount got write_throws =
     (let w = \<lparr>ui = \<lparr>currencies = JObj [], from_cur = str ''USD'', to_cur = str ''PKR'',
                       amount = str ''1'', result = JNull, rate = JNull, loading = False,
                       loadingCurrencies = True,
                       history = useLocalStorage_init got (JArr [])\<rparr>,
                cancelled = False, catalog_awaiting = False, calls = [], requests = [],
                console = [], alerts = [], setItem_throws = write_throws, writes = [],
                live = False, history_set = False\<rparr>
      in if render_returns (ui w)
         then fetchCurrencies (useLocalStorage_effect (w\<lparr>live := True\<rparr>))
         else w)"

text \<open>
  \<open>fetchCurrencies\<close> from its \<open>await\<close> on. With \<open>cancelled\<close> set, \<open>resp.data.data\<close> is not
  even evaluated; the \<open>catch\<close> is not guarded by the flag.
\<close>

definition fetchCurrencies_settled :: "axios_outcome \<Rightarrow> world \<Rightarrow> world" where
  "fetchCurrencies_settled outcome w =
     (let w1 = (case outcome of
                  Rejected e \<Rightarrow> console_error e w
                | Resolved payload \<Rightarrow>
                    if cancelled w then w
                    else (case property payload (str ''data'') of
                            Inl e \<Rightarrow> console_error e w
                          | Inr d \<Rightarrow> setCurrencies (if truthy d then d else JObj []) w))
      in if cancelled w1 then w1 else setLoadingCurrencies False w1)"

text \<open>The cleanup of the catalog effect.\<close>

definition teardown :: "world \<Rightarrow> world" where
  "teardown w = w\<lparr>cancelled := True\<rparr>"

text \<open>The component leaves the page: the cleanup runs and nothing is rendered any more.\<close>

definition unmount :: "world \<Rightarrow> world" where
  "unmount w = (teardown w)\<lparr>live := False\<rparr>"

text \<open>
  What React does once a handler has run: nothing for a component that is not mounted;
  otherwise the render, which takes the component down when it throws, and after a render
  that returns the storage effect, when \<open>setHistory\<close> has given it a new \<open>value\<close>.
  \<open>App.jsx\<close> is rendered by a file that is not among the sources; the root is taken to
  be the one of React 18 (\<open>createRoot\<close>), which renders the state updates of one run of
  a handler together, after an \<open>await\<close> as well, with no error boundary around \<open>App\<close>.
\<close>

definition commit :: "world \<Rightarrow> world" where
  "commit w =
     (if \<not> live w then w
      else if \<not> render_returns (ui w) then unmount w
      else if history_set w then useLocalStorage_effect (w\<lparr>history_set := False\<rparr>)
      else w)"

subsection \<open>\<open>onSwap\<close> and \<open>onConvert\<close>\<close>

definition onSwap :: "world \<Rightarrow> world" where
  "onSwap w =
     (let from = from_cur (ui w); to = to_cur (ui w)
      in setRate JNull (setResult JNull (setTo from (setFrom to w))))"

text \<open>
  \<open>onConvert\<close> up to its \<open>await\<close>: the guard, the three setters, and the request sent with
  the closure that waits for it.
\<close>

definition onConvert :: "world \<Rightarrow> world" where
  "onConvert w =
     (let s = ui w in
      if amount s = [] \<or> isNaN (Number (amount s)) then w
      else (setRate JNull (setResult JNull (setLoading True w)))
             \<lparr>requests := requests w @ [GetConvert (from_cur s) (to_cur s) (Number (amount s))],
              calls := calls w @ [\<lparr>c_from = from_cur s, c_to = to_cur s, c_amount = amount s,
                                   c_history = history s, awaiting = True\<rparr>]\<rparr>)"

text \<open>\<open>const { result, rate, fetchedAt } = resp.data\<close>.\<close>

definition destructure :: "jsval \<Rightarrow> exn + (jsval \<times> jsval \<times> jsval)" where
  "destructure d =
     (case property d (str ''result'') of
        Inl e \<Rightarrow> Inl e
      | Inr res \<Rightarrow>
          (case property d (str ''rate'') of
             Inl e \<Rightarrow> Inl e
           | Inr rt \<Rightarrow>
               (case property d (str ''fetchedAt'') of
                  Inl e \<Rightarrow> Inl e
                | Inr fetchedAt \<Rightarrow> Inr (res, rt, fetchedAt))))"

text \<open>The object literal \<open>record\<close>; \<open>uuid\<close> is what \<open>crypto.randomUUID()\<close> returned.\<close>

definition record_of ::
  "jsstring \<Rightarrow> jsstring \<Rightarrow> jsstring \<Rightarrow> jsstring \<Rightarrow> jsval \<Rightarrow> jsval \<Rightarrow> jsval \<Rightarrow> jsval" where
  "record_of uuid from to amountText res rt fetchedAt =
     JObj [(str ''id'', JStr uuid), (str ''from'', JStr from), (str ''to'', JStr to),
           (str ''amount'', JNum (Number amountText)), (str ''result'', res),
           (str ''rate'', rt), (str ''at'', fetchedAt)]"

definition catch_convert :: "exn \<Rightarrow> world \<Rightarrow> world" where
  "catch_convert e w = alert (str ''Conversion failed. Please try again.'') (console_error e w)"

text \<open>
  \<open>onConvert\<close> from its \<open>await\<close> on, for the call \<open>c\<close>: the \<open>try\<close> block, its \<open>catch\<close>
  and its \<open>finally\<close>. A throw after \<open>setResult\<close> and \<open>setRate\<close> leaves both set.
\<close>

definition onConvert_settled :: "call \<Rightarrow> axios_outcome \<Rightarrow> jsstring \<Rightarrow> world \<Rightarrow> world" where
  "onConvert_settled c outcome uuid w =
     setLoading False
       (case outcome of
          Rejected e \<Rightarrow> catch_convert e w
        | Resolved d \<Rightarrow>
            (case destructure d of
               Inl e \<Rightarrow> catch_convert e w
             | Inr (res, rt, fetchedAt) \<Rightarrow>
                 (let w1 = setRate rt (setResult res w);
                      record = record_of uuid (c_from c) (c_to c) (c_amount c) res rt fetchedAt
                  in case spread (c_history c) of
                       Inl e \<Rightarrow> catch_convert e w1
                     | Inr hs \<Rightarrow> setHistory (JArr (take 50 (record # hs))) w1)))"

subsection \<open>Events\<close>

text \<open>
  What can happen to the mounted component: the input handlers of the form, the two
  buttons and the submission, the settling of a request, and the unmount. The settling of
  the \<open>i\<close>-th call of \<open>onConvert\<close> comes with the outcome of the request and the UUID the
  platform hands out; a promise settles once.
\<close>

datatype event =
    ChangeAmount jsstring
  | ChangeFrom jsstring
  | ChangeTo jsstring
  | Swap
  | Submit
  | Clear
  | ConvertSettled nat axios_outcome jsstring
  | CurrenciesSettled axios_outcome
  | Teardown

fun step :: "world \<Rightarrow> event \<Rightarrow> world" where
  "step w (ChangeAmount v) = setAmount v w"
| "step w (ChangeFrom v) = setFrom v w"
| "step w (ChangeTo v) = setTo v w"
| "step w Swap = onSwap w"
| "step w Submit = onConvert w"
| "step w Clear = setHistory (JArr []) w"
| "step w (ConvertSettled i outcome uuid) =
     (if i < length (calls w) \<and> awaiting (calls w ! i)
      then onConvert_settled (calls w ! i) outcome uuid
             (w\<lparr>calls := (calls w)[i := (calls w ! i)\<lparr>awaiting := False\<rparr>]\<rparr>)
      else w)"
| "step w (CurrenciesSettled outcome) =
     (if catalog_awaiting w
      then fetchCurrencies_settled outcome (w\<lparr>catalog_awaiting := False\<rparr>)
      else w)"
| "step w Teardown = unmount w"

text \<open>An event as the component lives it: the handler, then the render and its effects.\<close>

definition react :: "world \<Rightarrow> event \<Rightarrow> world" where
  "react w ev = commit (step w ev)"

definition run :: "world \<Rightarrow> event list \<Rightarrow> world" where
  "run w evs = foldl react w evs"

text \<open>
  Which events can reach a handler. The controls exist while the component is mounted;
  the \<open>disabled\<close> attributes take away the submit button (the form's default button) and
  the swap button while \<open>loading || loadingCurrencies\<close>, and the two selects while
  \<open>loadingCurrencies\<close>. A request settles whether the component is mounted or not.
\<close>

fun enabled :: "world \<Rightarrow> event \<Rightarrow> bool" where
  "enabled w Submit = (live w \<and> \<not> (loading (ui w) \<or> loadingCurrencies (ui w)))"
| "enabled w Swap = (live w \<and> \<not> (loading (ui w) \<or> loadingCurrencies (ui w)))"
| "enabled w (ChangeFrom v) = (live w \<and> \<not> loadingCurrencies (ui w))"
| "enabled w (ChangeTo v) = (live w \<and> \<not> loadingCurrencies (ui w))"
| "enabled w (ChangeAmount v) = live w"
| "enabled w Clear = live w"
| "enabled w Teardown = live w"
| "enabled w (ConvertSettled i outcome uuid) = True"
| "enabled w (CurrenciesSettled outcome) = True"

section \<open>Scenarios and predicates of the properties\<close>

text \<open>
  A component ready for use: mounted on an empty storage, its catalog loaded with the two
  currencies of the specification's example.
\<close>

definition loaded :: world where
  "loaded = run (App_mount (Returns None) False)
     [CurrenciesSettled (Resolved (JObj [(str ''data'',
        JObj [(str ''USD'', JObj [(str ''name'', JStr (str ''US Dollar''))]),
              (str ''PKR'', JObj [(str ''name'', JStr (str ''Pakistani Rupee''))])])]))]"

text \<open>The component right after its first render, the catalog request still pending.\<close>

definition mounted :: world where
  "mounted = App_mount (Returns None) False"

text \<open>A world with its storage side forgotten: the flag of failing writes and the writes made.\<close>

definition forget_storage :: "world \<Rightarrow> world" where
  "forget_storage w = w\<lparr>setItem_throws := False, writes := []\<rparr>"

text \<open>The event settles the \<open>i\<close>-th call of \<open>onConvert\<close>.\<close>

fun settles :: "nat \<Rightarrow> event \<Rightarrow> bool" where
  "settles i (ConvertSettled j outcome uuid) = (i = j)"
| "settles i ev = False"

text \<open>Every event of the run finds its control enabled.\<close>

fun gated :: "world \<Rightarrow> event list \<Rightarrow> bool" where
  "gated w [] = True"
| "gated w (ev # evs) = (enabled w ev \<and> gated (react w ev) evs)"

text \<open>The number of convert requests in flight.\<close>

definition in_flight :: "world \<Rightarrow> nat" where
  "in_flight w = length (filter awaiting (calls w))"


text \<open>
  What one conversion takes: the entries of the form, and the payload and the UUID that
  its response comes with.
\<close>

record conversion =
  cv_from :: jsstring
  cv_to :: jsstring
  cv_amount :: jsstring
  cv_payload :: jsval
  cv_uuid :: jsstring

text \<open>
  One conversion from start to end: the form is filled in and submitted, and the request
  of that submission is answered before anything else happens.
\<close>

definition convert_once :: "world \<Rightarrow> conversion \<Rightarrow> world" where
  "convert_once w c =
     run w [ChangeFrom (cv_from c), ChangeTo (cv_to c), ChangeAmount (cv_amount c), Submit,
            ConvertSettled (length (calls w)) (Resolved (cv_payload c)) (cv_uuid c)]"

text \<open>The submission passes the guard and the response destructures.\<close>

definition successful :: "conversion \<Rightarrow> bool" where
  "successful c \<longleftrightarrow>
     cv_amount c \<noteq> [] \<and> \<not> isNaN (Number (cv_amount c)) \<and>
     cv_payload c \<noteq> JNull \<and> cv_payload c \<noteq> JUndefined"

text \<open>The entry that \<open>onConvert\<close> builds for the conversion.\<close>

definition entry_of :: "conversion \<Rightarrow> jsval" where
  "entry_of c =
     record_of (cv_uuid c) (cv_from c) (cv_to c) (cv_amount c)
       (field (cv_payload c) (str ''result'')) (field (cv_payload c) (str ''rate''))
       (field (cv_payload c) (str ''fetchedAt''))"

text \<open>The \<open>n\<close>-th of a series of conversions, each with a UUID and a timestamp of its own.\<close>

definition numbered :: "nat \<Rightarrow> conversion" where
  "numbered n = \<lparr>cv_from = str ''USD'', cv_to = str ''PKR'', cv_amount = str ''1'',
                   cv_payload = JObj [(str ''result'', JNum (Finite 279)), (str ''rate'', JNum (Finite 279)),
                                      (str ''fetchedAt'', JNum (Finite (of_nat n)))],
                   cv_uuid = [of_nat n]\<rparr>"

text \<open>The log is a sequence of at most 50 entries.\<close>

definition bounded_log :: "jsval \<Rightarrow> bool" where
  "bounded_log v = (case v of JArr h \<Rightarrow> length h \<le> 50 | _ \<Rightarrow> False)"

text \<open>
  The persisted slot cannot be read, is absent, holds a text that does not parse, or holds
  a sequence of at most 50 entries.
\<close>

definition persisted_within_cap :: "jsstring option completion \<Rightarrow> bool" where
  "persisted_within_cap got =
     (case got of
        Returns (Some item) \<Rightarrow> (case JSON_parse item of Inl e \<Rightarrow> True | Inr v \<Rightarrow> bounded_log v)
      | _ \<Rightarrow> True)"

text \<open>\<open>history.length\<close> of a log that is a sequence.\<close>

definition log_length :: "jsval \<Rightarrow> nat option" where
  "log_length v = (case v of JArr h \<Rightarrow> Some (length h) | _ \<Rightarrow> None)"

text \<open>A persisted text of 51 entries.\<close>

definition oversized :: jsstring where
  "oversized =
     str (''[{\"result\":1},{\"result\":1},{\"result\":1},'' @
          ''{\"result\":1},{\"result\":1},{\"result\":1},'' @
          ''{\"result\":1},{\"result\":1},{\"result\":1},'' @
          ''{\"result\":1},{\"result\":1},{\"result\":1},'' @
          ''{\"result\":1},{\"result\":1},{\"result\":1},'' @
          ''{\"result\":1},{\"result\":1},{\"result\":1},'' @
          ''{\"result\":1},{\"result\":1},{\"result\":1},'' @
          ''{\"result\":1},{\"result\":1},{\"result\":1},'' @
          ''{\"result\":1},{\"result\":1},{\"result\":1},'' @
          ''{\"result\":1},{\"result\":1},{\"result\":1},'' @
          ''{\"result\":1},{\"result\":1},{\"result\":1},'' @
          ''{\"result\":1},{\"result\":1},{\"result\":1},'' @
          ''{\"result\":1},{\"result\":1},{\"result\":1},'' @
          ''{\"result\":1},{\"result\":1},{\"result\":1},'' @
          ''{\"result\":1},{\"result\":1},{\"result\":1},'' @
          ''{\"result\":1},{\"result\":1},{\"result\":1},'' @
          ''{\"result\":1},{\"result\":1},{\"result\":1}]'')"

section \<open>Evaluation\<close>

text \<open>The definitions to unfold when a term is evaluated at a concrete input.\<close>

lemmas num_eval = Number_def str_def trim_def StrWhiteSpaceChar_def non_decimal_def
  unsigned_decimal_def is_digit_def is_hex_digit_def exponent_part_def signed_integer_def
  all_digits_def decimal_mv_def digits_value_def digit_of_def scale10_def number_of_def isNaN_def

lemmas json_eval = JSON_parse_def JSONNumber_def is_json_ws_def is_number_char_def escape_char_def
  transition_def begin_value_def

lemmas setters = setCurrencies_def setFrom_def setTo_def setAmount_def setResult_def setRate_def
  setLoading_def setLoadingCurrencies_def setHistory_def useLocalStorage_effect_def
  console_error_def alert_def

lemmas handlers = fetchCurrencies_def App_mount_def fetchCurrencies_settled_def teardown_def
  unmount_def onSwap_def onConvert_def destructure_def record_of_def catch_convert_def
  onConvert_settled_def useLocalStorage_init_def

lemmas render_eval = render_returns_def currencyList_def entry_values_def history_returns_def
  history_item_returns_def field_def

lemmas run_eval = run_def react_def commit_def

text \<open>The render and its effects leave the cells, the calls and the traces of the handlers alone.\<close>

lemma commit_keeps [simp]:
  "ui (commit w) = ui w" "calls (commit w) = calls w" "requests (commit w) = requests w"
  "console (commit w) = console w" "alerts (commit w) = alerts w"
  "catalog_awaiting (commit w) = catalog_awaiting w" "setItem_throws (commit w) = setItem_throws w"
  by (simp_all add: commit_def unmount_def teardown_def useLocalStorage_effect_def)

lemma commit_cancelled: "cancelled w \<Longrightarrow> cancelled (commit w)"
  by (simp add: commit_def unmount_def teardown_def useLocalStorage_effect_def)

lemma run_Nil [simp]: "run w [] = w"
  by (simp add: run_def)

lemma run_Cons [simp]: "run w (ev # evs) = run (commit (step w ev)) evs"
  by (simp add: run_def react_def)

lemma run_snoc: "run w (evs @ [ev]) = commit (step (run w evs) ev)"
  by (simp add: run_def react_def)

lemma loaded_eq:
  "loaded =
     \<lparr>ui = \<lparr>currencies = JObj [(str ''USD'', JObj [(str ''name'', JStr (str ''US Dollar''))]),
                                 (str ''PKR'', JObj [(str ''name'', JStr (str ''Pakistani Rupee''))])],
             from_cur = str ''USD'', to_cur = str ''PKR'', amount = str ''1'', result = JNull,
             rate = JNull, loading = False, loadingCurrencies = False, history = JArr []\<rparr>,
      cancelled = False, catalog_awaiting = False, calls = [], requests = [GetCurrencies],
      console = [], alerts = [], setItem_throws = False, writes = [JArr []],
      live = True, history_set = False\<rparr>"
  by (simp add: loaded_def commit_def handlers setters render_eval Let_def str_def)

lemma mounted_eq:
  "mounted =
     \<lparr>ui = \<lparr>currencies = JObj [], from_cur = str ''USD'', to_cur = str ''PKR'', amount = str ''1'',
             result = JNull, rate = JNull, loading = False, loadingCurrencies = True,
             history = JArr []\<rparr>,
      cancelled = False, catalog_awaiting = True, calls = [], requests = [GetCurrencies],
      console = [], alerts = [], setItem_throws = False, writes = [JArr []],
      live = True, history_set = False\<rparr>"
  by (simp add: mounted_def handlers setters render_eval Let_def)

section \<open>Swap\<close>

text \<open>
  Claim C7. In every state, the swap operation exchanges \<open>from\<close> and \<open>to\<close>, clears the
  displayed \<open>result\<close> and \<open>rate\<close>, and leaves \<open>amount\<close> and the history log unchanged; it
  changes nothing else either.
\<close>

theorem swap_exchanges:
  "step w Swap = w\<lparr>ui := (ui w)\<lparr>from_cur := to_cur (ui w), to_cur := from_cur (ui w),
                                 result := JNull, rate := JNull\<rparr>\<rparr>
   \<and> from_cur (ui (step w Swap)) = to_cur (ui w)
   \<and> to_cur (ui (step w Swap)) = from_cur (ui w)
   \<and> result (ui (step w Swap)) = JNull
   \<and> rate (ui (step w Swap)) = JNull
   \<and> amount (ui (step w Swap)) = amount (ui w)
   \<and> history (ui (step w Swap)) = history (ui w)
   \<and> writes (step w Swap) = writes w"
  by (simp add: onSwap_def setters Let_def)

theorem swap_exchanges_witness:
  "from_cur (ui (step loaded Swap)) = str ''PKR'' \<and> to_cur (ui (step loaded Swap)) = str ''USD''
   \<and> amount (ui (step loaded Swap)) = str ''1'' \<and> history (ui (step loaded Swap)) = JArr []"
  using swap_exchanges [of loaded] by (simp add: loaded_eq)

section \<open>The catalog fetch\<close>

lemma cancelled_step: "cancelled w \<Longrightarrow> cancelled (step w ev)"
  by (cases ev)
    (auto simp: handlers setters Let_def split: axios_outcome.splits sum.splits prod.splits)

lemma cancelled_run: "cancelled w \<Longrightarrow> cancelled (run w evs)"
  by (induction evs arbitrary: w) (simp_all add: cancelled_step commit_cancelled)

lemma cancelled_teardown: "cancelled (step w Teardown)"
  by (simp add: unmount_def teardown_def)

lemma cancelled_response: "cancelled w \<Longrightarrow> ui (step w (CurrenciesSettled outcome)) = ui w"
  by (cases outcome) (simp_all add: fetchCurrencies_settled_def console_error_def Let_def)

text \<open>
  Claim C8. A catalog response, success or failure, that arrives after the view has been
  torn down (whatever has happened since the teardown) mutates no state cell: the flag set
  by the teardown suppresses the write of the catalog and the clearing of the loading
  flag.
\<close>

theorem late_catalog_response_ignored:
  "ui (step (run (step w Teardown) evs) (CurrenciesSettled outcome)) = ui (run (step w Teardown) evs)"
  by (rule cancelled_response) (rule cancelled_run, rule cancelled_teardown)

theorem late_catalog_response_ignored_witness:
  "ui (step (run (step mounted Teardown) [ChangeAmount (str ''5'')])
         (CurrenciesSettled (Resolved (JObj [(str ''data'',
            JObj [(str ''USD'', JObj [(str ''name'', JStr (str ''US Dollar''))])])]))))
     = (ui mounted)\<lparr>amount := str ''5''\<rparr>
   \<and> catalog_awaiting (run (step mounted Teardown) [ChangeAmount (str ''5'')])"
proof -
  have "ui (run (step mounted Teardown) [ChangeAmount (str ''5'')]) = (ui mounted)\<lparr>amount := str ''5''\<rparr>"
    and "catalog_awaiting (run (step mounted Teardown) [ChangeAmount (str ''5'')])"
    by (simp_all add: unmount_def teardown_def setAmount_def mounted_eq)
  with late_catalog_response_ignored [of mounted "[ChangeAmount (str ''5'')]"
         "Resolved (JObj [(str ''data'', JObj [(str ''USD'', JObj [(str ''name'', JStr (str ''US Dollar''))])])])"]
  show ?thesis
    by simp
qed

text \<open>
  Claim C10. When a successful catalog fetch brings a payload whose \<open>data\<close> property is
  absent, \<open>undefined\<close> or \<open>null\<close> (and the view is still mounted), the catalog is set to
  the empty mapping and the loading flag is cleared; nothing is logged and no notice is
  raised, and the outcome is the very one of a payload whose \<open>data\<close> is an empty mapping.
\<close>

theorem missing_data_is_empty_catalog:
  assumes "catalog_awaiting w" and "\<not> cancelled w"
    and "property payload (str ''data'') = Inr d" and "d = JUndefined \<or> d = JNull"
  shows "currencies (ui (step w (CurrenciesSettled (Resolved payload)))) = JObj []
    \<and> loadingCurrencies (ui (step w (CurrenciesSettled (Resolved payload)))) = False
    \<and> console (step w (CurrenciesSettled (Resolved payload))) = console w
    \<and> alerts (step w (CurrenciesSettled (Resolved payload))) = alerts w
    \<and> step w (CurrenciesSettled (Resolved payload))
        = step w (CurrenciesSettled (Resolved (JObj [(str ''data'', JObj [])])))"
  using assms by (auto simp: fetchCurrencies_settled_def setters Let_def)

theorem missing_data_is_empty_catalog_witness:
  "catalog_awaiting mounted \<and> \<not> cancelled mounted
   \<and> property (JObj [(str ''status'', JStr (str ''ok''))]) (str ''data'') = Inr JUndefined
   \<and> currencies (ui (step mounted
         (CurrenciesSettled (Resolved (JObj [(str ''status'', JStr (str ''ok''))]))))) = JObj []
   \<and> console (step mounted
         (CurrenciesSettled (Resolved (JObj [(str ''status'', JStr (str ''ok''))])))) = console mounted"
proof -
  have a: "catalog_awaiting mounted" and b: "\<not> cancelled mounted"
    by (simp_all add: mounted_eq)
  have c: "property (JObj [(str ''status'', JStr (str ''ok''))]) (str ''data'') = Inr JUndefined"
    by (simp add: str_def)
  from missing_data_is_empty_catalog [OF a b c] a b c show ?thesis
    by blast
qed

text \<open>
  A payload that is itself \<open>null\<close> or \<open>undefined\<close> has no properties to read: the read
  throws, the error is logged, the catalog stays as it was and the loading flag is cleared.
\<close>

lemma null_payload_is_logged:
  assumes "catalog_awaiting w" and "\<not> cancelled w" and "payload = JNull \<or> payload = JUndefined"
  shows "currencies (ui (step w (CurrenciesSettled (Resolved payload)))) = currencies (ui w)
    \<and> loadingCurrencies (ui (step w (CurrenciesSettled (Resolved payload)))) = False
    \<and> console (step w (CurrenciesSettled (Resolved payload))) = console w @ [TypeError]"
  using assms by (auto simp: fetchCurrencies_settled_def setters Let_def)

section \<open>The guard of \<open>onConvert\<close>\<close>

text \<open>
  The claim C5, that a submission is a no-op for every amount text that is empty or does
  not parse to a finite number, fails at the text \<open>Infinity\<close>: \<open>Number\<close> makes it the
  infinity, which is no NaN, so the guard lets it pass; \<open>loading\<close> is set and the request
  is sent with that amount.
\<close>

theorem infinite_amount_is_sent:
  "Number (str ''Infinity'') = PosInfinity
   \<and> loading (ui (run loaded [ChangeAmount (str ''Infinity''), Submit])) = True
   \<and> requests (run loaded [ChangeAmount (str ''Infinity''), Submit])
       = [GetCurrencies, GetConvert (str ''USD'') (str ''PKR'') PosInfinity]
   \<and> run loaded [ChangeAmount (str ''Infinity''), Submit] \<noteq> run loaded [ChangeAmount (str ''Infinity'')]"
  by (simp add: loaded_eq commit_def render_eval onConvert_def setters Let_def num_eval)

text \<open>
  Claim C5, amended. A submission is a no-op (no request, no change of \<open>loading\<close>,
  \<open>result\<close>, \<open>rate\<close>, the history log or anything else) exactly when the amount text is
  empty or \<open>Number\<close> of it is NaN.
\<close>

theorem convert_noop_iff:
  "step w Submit = w \<longleftrightarrow> amount (ui w) = [] \<or> isNaN (Number (amount (ui w)))"
proof
  assume same: "step w Submit = w"
  show "amount (ui w) = [] \<or> isNaN (Number (amount (ui w)))"
  proof (rule ccontr)
    assume "\<not> ?thesis"
    then have "length (requests (step w Submit)) = Suc (length (requests w))"
      by (simp add: onConvert_def setters Let_def)
    with same show False by simp
  qed
next
  assume "amount (ui w) = [] \<or> isNaN (Number (amount (ui w)))"
  then show "step w Submit = w"
    by (auto simp: onConvert_def Let_def)
qed

theorem convert_noop_iff_witness:
  "isNaN (Number (str ''12abc''))
   \<and> step (step loaded (ChangeAmount (str ''12abc''))) Submit = step loaded (ChangeAmount (str ''12abc''))
   \<and> step (step loaded (ChangeAmount [])) Submit = step loaded (ChangeAmount [])"
proof -
  have n: "isNaN (Number (str ''12abc''))"
    by (simp add: num_eval)
  have a: "amount (ui (step loaded (ChangeAmount (str ''12abc'')))) = str ''12abc''"
    and b: "amount (ui (step loaded (ChangeAmount []))) = []"
    by (simp_all add: setAmount_def)
  from convert_noop_iff [of "step loaded (ChangeAmount (str ''12abc''))"]
       convert_noop_iff [of "step loaded (ChangeAmount [])"] n a b
  show ?thesis by simp
qed

section \<open>The persisted slot\<close>

lemma forget_storage_step: "forget_storage (step w ev) = forget_storage (step (forget_storage w) ev)"
  by (cases ev)
    (auto simp: forget_storage_def handlers setters Let_def
          split: axios_outcome.splits sum.splits prod.splits)

lemma forget_storage_commit: "forget_storage (commit w) = forget_storage (commit (forget_storage w))"
  by (simp add: forget_storage_def commit_def unmount_def teardown_def useLocalStorage_effect_def)

lemma forget_storage_run: "forget_storage (run w evs) = forget_storage (run (forget_storage w) evs)"
proof (induction evs arbitrary: w rule: rev_induct)
  case Nil
  show ?case by (simp add: forget_storage_def)
next
  case (snoc ev evs)
  have "forget_storage (run w (evs @ [ev]))
      = forget_storage (commit (forget_storage (step (forget_storage (run w evs)) ev)))"
    by (simp only: run_snoc forget_storage_commit [symmetric] forget_storage_step [symmetric])
  also have "\<dots> = forget_storage (commit (forget_storage (step (forget_storage (run (forget_storage w) evs)) ev)))"
    by (simp only: snoc.IH [of w])
  also have "\<dots> = forget_storage (run (forget_storage w) (evs @ [ev]))"
    by (simp only: run_snoc forget_storage_commit [symmetric] forget_storage_step [symmetric])
  finally show ?case .
qed

lemma JSON_parse_empty: "JSON_parse [] = Inl SyntaxError"
  by (simp add: JSON_parse_def)

lemma load_is_verbatim:
  "JSON_parse item = Inr v \<Longrightarrow> history (ui (App_mount (Returns (Some item)) wt)) = v"
  by (auto simp: handlers setters Let_def JSON_parse_empty)

lemma parse_null: "JSON_parse (str ''null'') = Inr JNull"
  by (simp add: json_eval num_eval Let_def)

text \<open>
  The claim C9, that the load returns the empty sequence for a corrupt slot and that
  nothing fatal follows, fails at a slot that holds the text \<open>null\<close>: no log, but a text
  that \<open>JSON.parse\<close> accepts. The load returns \<open>null\<close>, not the empty sequence; the first
  render then throws when it reads \<open>history.length\<close>, the component is not mounted, and no
  effect runs.
\<close>

theorem null_slot_is_loaded_as_null:
  "JSON_parse (str ''null'') = Inr JNull
   \<and> history (ui (App_mount (Returns (Some (str ''null''))) False)) = JNull
   \<and> history (ui (App_mount (Returns (Some (str ''null''))) False)) \<noteq> JArr []
   \<and> \<not> render_returns (ui (App_mount (Returns (Some (str ''null''))) False))
   \<and> \<not> live (App_mount (Returns (Some (str ''null''))) False)
   \<and> requests (App_mount (Returns (Some (str ''null''))) False) = []"
proof -
  have "history (ui (App_mount (Returns (Some (str ''null''))) False)) = JNull"
    using parse_null by (rule load_is_verbatim)
  moreover have "\<not> render_returns (ui (App_mount (Returns (Some (str ''null''))) False))"
    "\<not> live (App_mount (Returns (Some (str ''null''))) False)"
    "requests (App_mount (Returns (Some (str ''null''))) False) = []"
    by (simp_all add: App_mount_def useLocalStorage_init_def parse_null Let_def fetchCurrencies_def
          setters render_eval) (simp_all add: str_def)
  ultimately show ?thesis
    using parse_null by simp
qed

text \<open>
  Claim C9, amended. The load at startup returns the persisted value as it is, whatever
  its shape, when the slot holds a text that \<open>JSON.parse\<close> accepts, and the empty sequence
  when the storage cannot be read, the slot is absent or its text does not parse; the
  load itself raises nothing, being a value in every case. When the first render cannot
  show the loaded value it throws: the component is not mounted, and nothing is requested
  or written. A write that fails is swallowed: the effect leaves the world as it is, and
  the state cells go through the same values, and the component stays mounted or not,
  whether the writes fail or not.
\<close>

theorem storage_failures_are_absorbed:
  "history (ui (App_mount Throws wt)) = JArr []
   \<and> history (ui (App_mount (Returns None) wt)) = JArr []
   \<and> (JSON_parse item = Inl e \<longrightarrow> history (ui (App_mount (Returns (Some item)) wt)) = JArr [])
   \<and> (JSON_parse item = Inr v \<longrightarrow> history (ui (App_mount (Returns (Some item)) wt)) = v)
   \<and> (\<not> render_returns (ui (App_mount got wt)) \<longrightarrow>
        \<not> live (App_mount got wt) \<and> requests (App_mount got wt) = [] \<and> writes (App_mount got wt) = [])
   \<and> (setItem_throws w \<longrightarrow> useLocalStorage_effect w = w)
   \<and> ui (run (App_mount got True) evs) = ui (run (App_mount got False) evs)
   \<and> live (run (App_mount got True) evs) = live (run (App_mount got False) evs)"
proof -
  have absent: "history (ui (App_mount Throws wt)) = JArr []"
      "history (ui (App_mount (Returns None) wt)) = JArr []"
    by (simp_all add: handlers setters Let_def)
  have bad: "history (ui (App_mount (Returns (Some item)) wt)) = JArr []" if "JSON_parse item = Inl e"
    using that by (simp add: handlers setters Let_def)
  have good: "history (ui (App_mount (Returns (Some item)) wt)) = v" if "JSON_parse item = Inr v"
    using that by (rule load_is_verbatim)
  have thrown: "\<not> live (App_mount got wt) \<and> requests (App_mount got wt) = [] \<and> writes (App_mount got wt) = []"
    if "\<not> render_returns (ui (App_mount got wt))"
  proof -
    have "ui (App_mount got wt)
        = \<lparr>currencies = JObj [], from_cur = str ''USD'', to_cur = str ''PKR'', amount = str ''1'',
            result = JNull, rate = JNull, loading = False, loadingCurrencies = True,
            history = useLocalStorage_init got (JArr [])\<rparr>"
      by (simp add: App_mount_def fetchCurrencies_def setters Let_def)
    with that show ?thesis
      by (simp add: App_mount_def Let_def)
  qed
  have effect: "useLocalStorage_effect w = w" if "setItem_throws w"
    using that by (simp add: useLocalStorage_effect_def)
  have "forget_storage (App_mount got True) = forget_storage (App_mount got False)"
    by (simp add: forget_storage_def App_mount_def fetchCurrencies_def setters Let_def)
  then have same: "forget_storage (run (App_mount got True) evs)
      = forget_storage (run (App_mount got False) evs)"
    using forget_storage_run [of "App_mount got True" evs] forget_storage_run [of "App_mount got False" evs]
    by simp
  then have "ui (forget_storage (run (App_mount got True) evs)) = ui (forget_storage (run (App_mount got False) evs))"
    by simp
  then have flow: "ui (run (App_mount got True) evs) = ui (run (App_mount got False) evs)"
    by (simp add: forget_storage_def)
  from same have "live (forget_storage (run (App_mount got True) evs))
      = live (forget_storage (run (App_mount got False) evs))"
    by simp
  then have alive: "live (run (App_mount got True) evs) = live (run (App_mount got False) evs)"
    by (simp add: forget_storage_def)
  from absent bad good thrown effect flow alive show ?thesis
    by blast
qed

lemma parse_oops: "JSON_parse (str ''{oops'') = Inl SyntaxError"
  by (simp add: json_eval num_eval Let_def)

lemma parse_entry:
  "JSON_parse (str ''[{\"id\":\"a\",\"result\":2790}]'')
     = Inr (JArr [JObj [(str ''id'', JStr (str ''a'')), (str ''result'', JNum (Finite 2790))]])"
  by (simp add: json_eval num_eval Let_def)

theorem storage_failures_are_absorbed_witness:
  "JSON_parse (str ''{oops'') = Inl SyntaxError
   \<and> history (ui (App_mount (Returns (Some (str ''{oops''))) False)) = JArr []
   \<and> JSON_parse (str ''[{\"id\":\"a\",\"result\":2790}]'')
        = Inr (JArr [JObj [(str ''id'', JStr (str ''a'')), (str ''result'', JNum (Finite 2790))]])
   \<and> history (ui (App_mount (Returns (Some (str ''[{\"id\":\"a\",\"result\":2790}]''))) False))
        = JArr [JObj [(str ''id'', JStr (str ''a'')), (str ''result'', JNum (Finite 2790))]]
   \<and> \<not> render_returns (ui (App_mount (Returns (Some (str ''5''))) False))
   \<and> \<not> live (App_mount (Returns (Some (str ''5''))) False)
   \<and> writes (App_mount (Returns (Some (str ''5''))) False) = []
   \<and> setItem_throws (loaded\<lparr>setItem_throws := True\<rparr>)
   \<and> useLocalStorage_effect (loaded\<lparr>setItem_throws := True\<rparr>) = loaded\<lparr>setItem_throws := True\<rparr>"
proof -
  have t: "setItem_throws (loaded\<lparr>setItem_throws := True\<rparr>)"
    by simp
  have five: "JSON_parse (str ''5'') = Inr (JNum (Finite 5))"
    by (simp add: json_eval num_eval Let_def)
  have r: "\<not> render_returns (ui (App_mount (Returns (Some (str ''5''))) False))"
    by (simp add: App_mount_def useLocalStorage_init_def five Let_def fetchCurrencies_def
          setters render_eval) (simp add: str_def)
  from storage_failures_are_absorbed
         [where wt = False and item = "str ''{oops''" and e = SyntaxError
            and got = "Returns (Some (str ''5''))" and w = "loaded\<lparr>setItem_throws := True\<rparr>"]
       storage_failures_are_absorbed
         [where wt = False and item = "str ''[{\"id\":\"a\",\"result\":2790}]''"
            and v = "JArr [JObj [(str ''id'', JStr (str ''a'')), (str ''result'', JNum (Finite 2790))]]"]
       parse_oops parse_entry t r
  show ?thesis by blast
qed

section \<open>Conversions\<close>

lemma step_keeps_call:
  assumes "i < length (calls w)" and "\<not> settles i ev"
  shows "i < length (calls (step w ev)) \<and> calls (step w ev) ! i = calls w ! i"
  using assms
  by (cases ev)
    (auto simp: handlers setters Let_def nth_append nth_list_update
          split: axios_outcome.splits sum.splits prod.splits)

lemma run_keeps_call:
  assumes "i < length (calls w)" and "list_all (\<lambda>ev. \<not> settles i ev) evs"
  shows "i < length (calls (run w evs)) \<and> calls (run w evs) ! i = calls w ! i"
  using assms
proof (induction evs arbitrary: w)
  case Nil
  then show ?case by simp
next
  case (Cons ev evs)
  from Cons.prems have s: "i < length (calls (commit (step w ev)))
      \<and> calls (commit (step w ev)) ! i = calls w ! i"
    by (simp add: step_keeps_call)
  from Cons.prems have "list_all (\<lambda>ev. \<not> settles i ev) evs"
    by simp
  with Cons.IH [of "commit (step w ev)"] s show ?case
    by simp
qed

lemma submit_call:
  assumes "amount (ui w) \<noteq> []" and "\<not> isNaN (Number (amount (ui w)))"
  shows "calls (onConvert w) = calls w @ [\<lparr>c_from = from_cur (ui w), c_to = to_cur (ui w),
            c_amount = amount (ui w), c_history = history (ui w), awaiting = True\<rparr>]"
    and "requests (onConvert w)
           = requests w @ [GetConvert (from_cur (ui w)) (to_cur (ui w)) (Number (amount (ui w)))]"
    and "ui (onConvert w) = (ui w)\<lparr>loading := True, result := JNull, rate := JNull\<rparr>"
    and "alerts (onConvert w) = alerts w" and "console (onConvert w) = console w"
    and "writes (onConvert w) = writes w"
  using assms by (simp_all add: onConvert_def setters Let_def)

lemma settled_success:
  assumes "i < length (calls w)" and "awaiting (calls w ! i)"
    and "destructure payload = Inr (res, rt, fetchedAt)"
    and "spread (c_history (calls w ! i)) = Inr hs"
  shows "ui (step w (ConvertSettled i (Resolved payload) uuid))
     = (ui w)\<lparr>result := res, rate := rt, loading := False,
               history := JArr (take 50 (record_of uuid (c_from (calls w ! i)) (c_to (calls w ! i))
                                           (c_amount (calls w ! i)) res rt fetchedAt # hs))\<rparr>"
  using assms by (simp add: onConvert_settled_def setters Let_def)





section \<open>Failed conversions\<close>

lemma settled_failure:
  assumes "i < length (calls w)" and "awaiting (calls w ! i)"
    and "outcome = Rejected e \<or> (e = TypeError \<and> (outcome = Resolved JNull \<or> outcome = Resolved JUndefined))"
  shows "ui (step w (ConvertSettled i outcome uuid)) = (ui w)\<lparr>loading := False\<rparr>"
    and "alerts (step w (ConvertSettled i outcome uuid))
           = alerts w @ [str ''Conversion failed. Please try again.'']"
    and "console (step w (ConvertSettled i outcome uuid)) = console w @ [e]"
    and "writes (step w (ConvertSettled i outcome uuid)) = writes w"
  using assms by (auto simp: onConvert_settled_def catch_convert_def destructure_def setters)

text \<open>
  The claim C6, that every failed convert request, a malformed payload included, leaves
  \<open>result\<close> and \<open>rate\<close> cleared and the log unchanged and raises the notice, fails at the
  payload \<open>{}\<close>: nothing checks the shape of a payload, the destructuring yields three
  times \<open>undefined\<close>, \<open>result\<close> and \<open>rate\<close> are set to it, an entry is appended to the
  log, and no notice is raised and nothing is logged.
\<close>

theorem malformed_payload_is_applied:
  "JSON_parse (str ''{}'') = Inr (JObj [])
   \<and> result (ui (run loaded [Submit, ConvertSettled 0 (Resolved (JObj [])) (str ''uuid-1'')])) = JUndefined
   \<and> rate (ui (run loaded [Submit, ConvertSettled 0 (Resolved (JObj [])) (str ''uuid-1'')])) = JUndefined
   \<and> history (ui (run loaded [Submit, ConvertSettled 0 (Resolved (JObj [])) (str ''uuid-1'')]))
       = JArr [JObj [(str ''id'', JStr (str ''uuid-1'')), (str ''from'', JStr (str ''USD'')),
                     (str ''to'', JStr (str ''PKR'')), (str ''amount'', JNum (Finite 1)),
                     (str ''result'', JUndefined), (str ''rate'', JUndefined), (str ''at'', JUndefined)]]
   \<and> history (ui (run loaded [Submit, ConvertSettled 0 (Resolved (JObj [])) (str ''uuid-1'')]))
       \<noteq> history (ui loaded)
   \<and> alerts (run loaded [Submit, ConvertSettled 0 (Resolved (JObj [])) (str ''uuid-1'')]) = []
   \<and> console (run loaded [Submit, ConvertSettled 0 (Resolved (JObj [])) (str ''uuid-1'')]) = []"
  by (simp add: loaded_eq handlers setters Let_def num_eval json_eval)

text \<open>
  Claim C6, amended. For every convert request that is rejected (network error, status
  outside 2xx) or whose payload is \<open>null\<close> or \<open>undefined\<close>: the submission has cleared
  \<open>result\<close> and \<open>rate\<close>, and the handling of the failure sets none of \<open>result\<close>, \<open>rate\<close>
  and the log (so they stay cleared when nothing else has set them meanwhile) and writes
  nothing to the storage; it raises the failure notice, logs the error, and ends with
  \<open>loading\<close> false.
\<close>

theorem failed_conversion_is_reported:
  assumes "amount (ui w) \<noteq> []" and "\<not> isNaN (Number (amount (ui w)))"
    and "list_all (\<lambda>ev. \<not> settles (length (calls w)) ev) evs"
    and "outcome = Rejected e \<or> (e = TypeError \<and> (outcome = Resolved JNull \<or> outcome = Resolved JUndefined))"
  shows "let w1 = step w Submit;
             w2 = run w1 evs;
             w3 = step w2 (ConvertSettled (length (calls w)) outcome uuid)
         in result (ui w1) = JNull \<and> rate (ui w1) = JNull
          \<and> result (ui w3) = result (ui w2) \<and> rate (ui w3) = rate (ui w2)
          \<and> history (ui w3) = history (ui w2) \<and> writes w3 = writes w2
          \<and> alerts w3 = alerts w2 @ [str ''Conversion failed. Please try again.'']
          \<and> console w3 = console w2 @ [e]
          \<and> loading (ui w3) = False"
proof -
  let ?i = "length (calls w)"
  let ?w1 = "step w Submit"
  let ?w2 = "run ?w1 evs"
  from assms(1,2) have "?i < length (calls ?w1)" and "awaiting (calls ?w1 ! ?i)"
    by (simp_all add: submit_call)
  with assms(3) have len: "?i < length (calls ?w2)" and aw: "awaiting (calls ?w2 ! ?i)"
    using run_keeps_call [of ?i ?w1 evs] by simp_all
  from assms(1,2) have cleared: "result (ui ?w1) = JNull" "rate (ui ?w1) = JNull"
    by (simp_all add: submit_call)
  note settled_failure [OF len aw assms(4), of uuid]
  with cleared show ?thesis
    unfolding Let_def by simp
qed

theorem failed_conversion_is_reported_witness:
  "amount (ui loaded) \<noteq> [] \<and> \<not> isNaN (Number (amount (ui loaded)))
   \<and> list_all (\<lambda>ev. \<not> settles (length (calls loaded)) ev) []
   \<and> result (ui (step (run (step loaded Submit) []) (ConvertSettled (length (calls loaded)) (Rejected NetworkError) (str ''uuid-1'')))) = JNull
   \<and> history (ui (step (run (step loaded Submit) []) (ConvertSettled (length (calls loaded)) (Rejected NetworkError) (str ''uuid-1'')))) = JArr []
   \<and> alerts (step (run (step loaded Submit) []) (ConvertSettled (length (calls loaded)) (Rejected NetworkError) (str ''uuid-1'')))
        = [str ''Conversion failed. Please try again.'']
   \<and> console (step (run (step loaded Submit) []) (ConvertSettled (length (calls loaded)) (Rejected NetworkError) (str ''uuid-1'')))
        = [NetworkError]
   \<and> loading (ui (step (run (step loaded Submit) []) (ConvertSettled (length (calls loaded)) (Rejected NetworkError) (str ''uuid-1'')))) = False"
proof -
  have one: "Number (str ''1'') = Finite 1"
    by (simp add: num_eval)
  have a: "amount (ui loaded) \<noteq> []" and b: "\<not> isNaN (Number (amount (ui loaded)))"
    by (simp_all add: loaded_eq one isNaN_def) (simp add: str_def)
  have c: "list_all (\<lambda>ev. \<not> settles (length (calls loaded)) ev) []"
    by simp
  have w1: "history (ui (run (step loaded Submit) [])) = JArr []"
       "alerts (run (step loaded Submit) []) = []" "console (run (step loaded Submit) []) = []"
    using a b by (simp_all add: submit_call) (simp_all add: loaded_eq)
  from failed_conversion_is_reported [OF a b c, of "Rejected NetworkError" NetworkError "str ''uuid-1''"]
  have "result (ui (step (run (step loaded Submit) []) (ConvertSettled (length (calls loaded)) (Rejected NetworkError) (str ''uuid-1'')))) = JNull
   \<and> history (ui (step (run (step loaded Submit) []) (ConvertSettled (length (calls loaded)) (Rejected NetworkError) (str ''uuid-1'')))) = JArr []
   \<and> alerts (step (run (step loaded Submit) []) (ConvertSettled (length (calls loaded)) (Rejected NetworkError) (str ''uuid-1'')))
        = [str ''Conversion failed. Please try again.'']
   \<and> console (step (run (step loaded Submit) []) (ConvertSettled (length (calls loaded)) (Rejected NetworkError) (str ''uuid-1'')))
        = [NetworkError]
   \<and> loading (ui (step (run (step loaded Submit) []) (ConvertSettled (length (calls loaded)) (Rejected NetworkError) (str ''uuid-1'')))) = False"
    unfolding Let_def using w1 by simp
  with a b c show ?thesis
    by blast
qed

section \<open>Sequences of conversions\<close>

lemma property_field: "v \<noteq> JNull \<Longrightarrow> v \<noteq> JUndefined \<Longrightarrow> property v k = Inr (field v k)"
  by (cases v) (simp_all add: field_def)

lemma destructure_fields:
  "v \<noteq> JNull \<Longrightarrow> v \<noteq> JUndefined \<Longrightarrow>
   destructure v = Inr (field v (str ''result''), field v (str ''rate''), field v (str ''fetchedAt''))"
  by (simp add: destructure_def property_field)

lemma convert_once_history:
  assumes "history (ui w) = JArr h" and "successful c"
  shows "history (ui (convert_once w c)) = JArr (take 50 (entry_of c # h))"
proof -
  let ?w = "run w [ChangeFrom (cv_from c), ChangeTo (cv_to c), ChangeAmount (cv_amount c)]"
  let ?i = "length (calls w)"
  let ?ev = "ConvertSettled ?i (Resolved (cv_payload c)) (cv_uuid c)"
  have st: "amount (ui ?w) = cv_amount c" "from_cur (ui ?w) = cv_from c" "to_cur (ui ?w) = cv_to c"
    "history (ui ?w) = JArr h" "calls ?w = calls w"
    using assms(1) by (simp_all add: setters)
  from assms(2) have guard: "amount (ui ?w) \<noteq> []" "\<not> isNaN (Number (amount (ui ?w)))"
    by (simp_all only: st) (simp_all add: successful_def)
  from submit_call(1) [OF guard]
  have calls1: "calls (commit (onConvert ?w)) = calls ?w @ [\<lparr>c_from = from_cur (ui ?w),
      c_to = to_cur (ui ?w), c_amount = amount (ui ?w), c_history = history (ui ?w), awaiting = True\<rparr>]"
    by (simp only: commit_keeps)
  then have len: "?i < length (calls (commit (onConvert ?w)))"
    and c: "calls (commit (onConvert ?w)) ! ?i = \<lparr>c_from = cv_from c, c_to = cv_to c,
              c_amount = cv_amount c, c_history = JArr h, awaiting = True\<rparr>"
    by (simp_all only: st) simp_all
  from assms(2) have d: "destructure (cv_payload c)
      = Inr (field (cv_payload c) (str ''result''), field (cv_payload c) (str ''rate''),
             field (cv_payload c) (str ''fetchedAt''))"
    by (simp add: successful_def destructure_fields)
  have "ui (step (commit (onConvert ?w)) ?ev)
      = (ui (commit (onConvert ?w)))\<lparr>result := field (cv_payload c) (str ''result''),
           rate := field (cv_payload c) (str ''rate''), loading := False,
           history := JArr (take 50 (record_of (cv_uuid c)
              (c_from (calls (commit (onConvert ?w)) ! ?i)) (c_to (calls (commit (onConvert ?w)) ! ?i))
              (c_amount (calls (commit (onConvert ?w)) ! ?i))
              (field (cv_payload c) (str ''result'')) (field (cv_payload c) (str ''rate''))
              (field (cv_payload c) (str ''fetchedAt'')) # h))\<rparr>"
    by (rule settled_success) (simp_all only: len c d call.simps spread.simps)
  then have "history (ui (step (commit (onConvert ?w)) ?ev)) = JArr (take 50 (entry_of c # h))"
    by (simp only: c call.simps entry_of_def) simp
  moreover have "convert_once w c = commit (step (commit (onConvert ?w)) ?ev)"
    by (simp add: convert_once_def)
  ultimately show ?thesis
    by (simp only: commit_keeps)
qed

lemma take_cons_take: "take 50 (x # take 50 ys) = take 50 (x # ys)"
  by simp

lemma conversions_history:
  assumes "history (ui w) = JArr h" and "list_all successful cs" and "cs \<noteq> []"
  shows "history (ui (foldl convert_once w cs)) = JArr (take 50 (map entry_of (rev cs) @ h))"
  using assms(2,3)
proof (induction cs rule: rev_induct)
  case Nil
  then show ?case by simp
next
  case (snoc c cs)
  from snoc.prems have good: "successful c" and rest: "list_all successful cs"
    by simp_all
  show ?case
  proof (cases "cs = []")
    case True
    from assms(1) good have "history (ui (convert_once w c)) = JArr (take 50 (entry_of c # h))"
      by (rule convert_once_history)
    with True show ?thesis
      by simp
  next
    case False
    with snoc.IH rest
    have "history (ui (foldl convert_once w cs)) = JArr (take 50 (map entry_of (rev cs) @ h))"
      by simp
    from this good have "history (ui (convert_once (foldl convert_once w cs) c))
        = JArr (take 50 (entry_of c # take 50 (map entry_of (rev cs) @ h)))"
      by (rule convert_once_history)
    then show ?thesis
      by (simp only: take_cons_take foldl_append foldl.simps rev_append rev.simps
            map_append list.map append.simps)
  qed
qed

text \<open>
  Claim C2. After more than 50 successful conversions, one after the other, from any
  history log, the log holds exactly the entries of the 50 most recent conversions,
  newest first: the older ones, and all of the initial log, have been dropped.
\<close>

theorem log_keeps_fifty_newest:
  assumes "history (ui w) = JArr h" and "list_all successful cs" and "50 < length cs"
  shows "history (ui (foldl convert_once w cs)) = JArr (map entry_of (take 50 (rev cs)))"
proof -
  from assms(3) have "take 50 (map entry_of (rev cs) @ h) = map entry_of (take 50 (rev cs))"
    by (simp add: take_map)
  moreover from assms(3) have "cs \<noteq> []"
    by auto
  ultimately show ?thesis
    using conversions_history [OF assms(1,2)] by simp
qed

theorem log_keeps_fifty_newest_witness:
  "history (ui loaded) = JArr [] \<and> list_all successful (map numbered [0..<51])
   \<and> 50 < length (map numbered [0..<51])
   \<and> history (ui (foldl convert_once loaded (map numbered [0..<51])))
        = JArr (map entry_of (take 50 (rev (map numbered [0..<51]))))"
proof -
  have a: "history (ui loaded) = JArr []"
    by (simp add: loaded_eq)
  have one: "Number (str ''1'') = Finite 1"
    by (simp add: num_eval)
  have "successful (numbered n)" for n
    by (simp add: successful_def numbered_def one isNaN_def) (simp add: str_def)
  then have b: "list_all successful (map numbered [0..<51])"
    by (simp add: list_all_iff)
  have c: "50 < length (map numbered [0..<51])"
    by simp
  from log_keeps_fifty_newest [OF a b c] a b c show ?thesis
    by blast
qed

section \<open>Overlapping submissions\<close>

text \<open>
  Where every event finds its control enabled, submissions do not overlap: at most one
  convert request is in flight, and only while \<open>loading\<close> is true.
\<close>

lemma filter_settled:
  "i < length cs \<Longrightarrow> awaiting (cs ! i) \<Longrightarrow>
   Suc (length (filter awaiting (cs[i := (cs ! i)\<lparr>awaiting := False\<rparr>]))) = length (filter awaiting cs)"
proof (induction cs arbitrary: i)
  case Nil
  then show ?case by simp
next
  case (Cons c cs)
  then show ?case by (cases i) auto
qed

lemma in_flight_step:
  assumes "in_flight w \<le> (if loading (ui w) then 1 else 0)" and "enabled w ev"
  shows "in_flight (step w ev) \<le> (if loading (ui (step w ev)) then 1 else 0)"
proof (cases ev)
  case Submit
  with assms show ?thesis
    by (auto simp: in_flight_def onConvert_def setters Let_def)
next
  case (ConvertSettled i outcome uuid)
  show ?thesis
  proof (cases "i < length (calls w) \<and> awaiting (calls w ! i)")
    case False
    with assms ConvertSettled show ?thesis by auto
  next
    case True
    then have "Suc (length (filter awaiting ((calls w)[i := (calls w ! i)\<lparr>awaiting := False\<rparr>])))
        = in_flight w"
      by (simp add: in_flight_def filter_settled)
    with assms(1) have none: "filter awaiting ((calls w)[i := (calls w ! i)\<lparr>awaiting := False\<rparr>]) = []"
      by (cases "filter awaiting ((calls w)[i := (calls w ! i)\<lparr>awaiting := False\<rparr>])")
        (auto split: if_splits)
    have "calls (onConvert_settled c outcome uuid v) = calls v" for c v
      by (auto simp: onConvert_settled_def catch_convert_def setters Let_def
               split: axios_outcome.splits sum.splits prod.splits)
    with none True ConvertSettled show ?thesis
      by (simp add: in_flight_def)
  qed
next
  case (CurrenciesSettled outcome)
  have "calls (fetchCurrencies_settled outcome v) = calls v
      \<and> loading (ui (fetchCurrencies_settled outcome v)) = loading (ui v)" for v
    by (auto simp: fetchCurrencies_settled_def setters Let_def split: axios_outcome.splits sum.splits)
  with assms CurrenciesSettled show ?thesis
    by (auto simp: in_flight_def split: if_splits)
qed (use assms in \<open>auto simp: in_flight_def onSwap_def unmount_def teardown_def setters Let_def\<close>)

lemma in_flight_commit: "in_flight (commit w) = in_flight w"
  by (simp add: in_flight_def)

lemma submissions_do_not_overlap:
  assumes "gated (App_mount got wt) evs"
  shows "in_flight (run (App_mount got wt) evs) \<le> 1"
proof -
  have "in_flight (run w evs) \<le> (if loading (ui (run w evs)) then 1 else 0)"
    if "in_flight w \<le> (if loading (ui w) then 1 else 0)" and "gated w evs" for w
    using that
  proof (induction evs arbitrary: w)
    case Nil
    then show ?case by simp
  next
    case (Cons ev evs)
    from Cons.prems have "in_flight (step w ev) \<le> (if loading (ui (step w ev)) then 1 else 0)"
      and g: "gated (commit (step w ev)) evs"
      by (simp_all add: in_flight_step react_def)
    then have "in_flight (commit (step w ev)) \<le> (if loading (ui (commit (step w ev))) then 1 else 0)"
      by (simp only: in_flight_commit commit_keeps)
    then have "in_flight (run (commit (step w ev)) evs)
        \<le> (if loading (ui (run (commit (step w ev)) evs)) then 1 else 0)"
      using g by (rule Cons.IH)
    then show ?case by simp
  qed
  moreover have "in_flight (App_mount got wt) \<le> (if loading (ui (App_mount got wt)) then 1 else 0)"
    by (simp add: in_flight_def handlers setters Let_def)
  ultimately have "in_flight (run (App_mount got wt) evs)
      \<le> (if loading (ui (run (App_mount got wt) evs)) then 1 else 0)"
    using assms by blast
  then show ?thesis
    by (simp split: if_splits)
qed

text \<open>
  The claim C4, that of two overlapping submissions of which the second is answered first
  only the later-issued one shows in \<open>result\<close>, \<open>rate\<close> and the log, fails: no request
  carries a token, each response is applied as it arrives. Here the amount 1 is submitted,
  then the amount 2; the answer 558 to the second arrives, then the answer 279 to the
  first. The state ends with the first request's result, and the log with the first
  request's entry alone.
\<close>

theorem overlap_shows_first_request:
  "result (ui (run loaded [Submit, ChangeAmount (str ''2''), Submit,
      ConvertSettled 1 (Resolved (JObj [(str ''result'', JNum (Finite 558)),
         (str ''rate'', JNum (Finite 279)), (str ''fetchedAt'', JStr (str ''T2''))])) (str ''uuid-2''),
      ConvertSettled 0 (Resolved (JObj [(str ''result'', JNum (Finite 279)),
         (str ''rate'', JNum (Finite 279)), (str ''fetchedAt'', JStr (str ''T1''))])) (str ''uuid-1'')]))
     = JNum (Finite 279)
   \<and> result (ui (run loaded [Submit, ChangeAmount (str ''2''), Submit,
      ConvertSettled 1 (Resolved (JObj [(str ''result'', JNum (Finite 558)),
         (str ''rate'', JNum (Finite 279)), (str ''fetchedAt'', JStr (str ''T2''))])) (str ''uuid-2''),
      ConvertSettled 0 (Resolved (JObj [(str ''result'', JNum (Finite 279)),
         (str ''rate'', JNum (Finite 279)), (str ''fetchedAt'', JStr (str ''T1''))])) (str ''uuid-1'')]))
     \<noteq> JNum (Finite 558)
   \<and> history (ui (run loaded [Submit, ChangeAmount (str ''2''), Submit,
      ConvertSettled 1 (Resolved (JObj [(str ''result'', JNum (Finite 558)),
         (str ''rate'', JNum (Finite 279)), (str ''fetchedAt'', JStr (str ''T2''))])) (str ''uuid-2''),
      ConvertSettled 0 (Resolved (JObj [(str ''result'', JNum (Finite 279)),
         (str ''rate'', JNum (Finite 279)), (str ''fetchedAt'', JStr (str ''T1''))])) (str ''uuid-1'')]))
     = JArr [JObj [(str ''id'', JStr (str ''uuid-1'')), (str ''from'', JStr (str ''USD'')),
                   (str ''to'', JStr (str ''PKR'')), (str ''amount'', JNum (Finite 1)),
                   (str ''result'', JNum (Finite 279)), (str ''rate'', JNum (Finite 279)),
                   (str ''at'', JStr (str ''T1''))]]"
  by (simp add: loaded_eq handlers setters Let_def num_eval)

text \<open>
  Claim C4, amended. Take two submissions that both pass the guard of \<open>onConvert\<close>, the
  second made while the first is unanswered, from a state whose log is a sequence, and
  let the second-issued request be answered first and the first-issued request last. No
  request carries a token, and every response is applied as it arrives, so the response
  that arrives last decides. When the second-issued request resolves with a payload that
  destructures, \<open>result\<close>, \<open>rate\<close> and the log are set from it. When the first-issued
  request then resolves with a payload that destructures, \<open>result\<close> and \<open>rate\<close> become
  those of the first-issued request, and the log becomes its entry prepended to the log
  as it was at the first submission (cut to 50), so an entry of the second request is
  lost. When the first-issued request fails instead (it is rejected, or resolves with
  \<open>null\<close> or \<open>undefined\<close>), \<open>result\<close>, \<open>rate\<close> and the log stay as the second response left
  them, the notice is raised and the error is logged. In every case \<open>loading\<close> ends false.
  What keeps submissions from overlapping is the form alone: an accepted submission
  disables the submit button until a response arrives.
\<close>

theorem overlap_last_response_wins:
  assumes "amount (ui w) \<noteq> []" and "\<not> isNaN (Number (amount (ui w)))"
    and "a2 \<noteq> []" and "\<not> isNaN (Number a2)"
    and "history (ui w) = JArr h"
  shows "let n = length (calls w);
             w5 = run w [Submit, ChangeFrom f2, ChangeTo t2, ChangeAmount a2, Submit,
                         ConvertSettled (n + 1) outcome2 u2];
             wf = run w [Submit, ChangeFrom f2, ChangeTo t2, ChangeAmount a2, Submit,
                         ConvertSettled (n + 1) outcome2 u2,
                         ConvertSettled n outcome1 u1]
         in (outcome2 = Resolved p2 \<and> destructure p2 = Inr (res2, rt2, at2)
               \<longrightarrow> result (ui w5) = res2 \<and> rate (ui w5) = rt2
                 \<and> history (ui w5) = JArr (take 50 (record_of u2 f2 t2 a2 res2 rt2 at2 # h)))
          \<and> (outcome1 = Resolved p1 \<and> destructure p1 = Inr (res1, rt1, at1)
               \<longrightarrow> result (ui wf) = res1 \<and> rate (ui wf) = rt1
                 \<and> history (ui wf)
                     = JArr (take 50 (record_of u1 (from_cur (ui w)) (to_cur (ui w)) (amount (ui w))
                                        res1 rt1 at1 # h)))
          \<and> (outcome1 = Rejected e
                \<or> (e = TypeError \<and> (outcome1 = Resolved JNull \<or> outcome1 = Resolved JUndefined))
               \<longrightarrow> result (ui wf) = result (ui w5) \<and> rate (ui wf) = rate (ui w5)
                 \<and> history (ui wf) = history (ui w5)
                 \<and> alerts wf = alerts w5 @ [str ''Conversion failed. Please try again.'']
                 \<and> console wf = console w5 @ [e])
          \<and> loading (ui wf) = False
          \<and> \<not> enabled (run w [Submit]) Submit"
proof -
  let ?n = "length (calls w)"
  let ?c1 = "\<lparr>c_from = from_cur (ui w), c_to = to_cur (ui w), c_amount = amount (ui w),
              c_history = JArr h, awaiting = True\<rparr>"
  let ?c2 = "\<lparr>c_from = f2, c_to = t2, c_amount = a2, c_history = JArr h, awaiting = True\<rparr>"
  let ?w1 = "commit (onConvert w)"
  let ?w2 = "commit (setAmount a2 (commit (setTo t2 (commit (setFrom f2 ?w1)))))"
  let ?w3 = "commit (onConvert ?w2)"
  let ?w4 = "step ?w3 (ConvertSettled (?n + 1) outcome2 u2)"
  let ?w5 = "commit ?w4"
  let ?w6 = "step ?w5 (ConvertSettled ?n outcome1 u1)"
  let ?wf = "commit ?w6"
  from assms(1,2,5) have calls1: "calls ?w1 = calls w @ [?c1]" and h1: "history (ui ?w1) = JArr h"
    and busy: "loading (ui ?w1)"
    by (simp_all add: submit_call)
  have st2: "amount (ui ?w2) = a2" "from_cur (ui ?w2) = f2" "to_cur (ui ?w2) = t2"
    "history (ui ?w2) = JArr h" "calls ?w2 = calls w @ [?c1]"
    using calls1 h1 by (simp_all add: setters)
  from assms(3,4) have guard2: "amount (ui ?w2) \<noteq> []" "\<not> isNaN (Number (amount (ui ?w2)))"
    by (simp_all only: st2) simp_all
  from submit_call(1) [OF guard2]
  have "calls ?w3 = calls ?w2 @ [\<lparr>c_from = from_cur (ui ?w2), c_to = to_cur (ui ?w2),
      c_amount = amount (ui ?w2), c_history = history (ui ?w2), awaiting = True\<rparr>]"
    by (simp only: commit_keeps)
  then have calls3: "calls ?w3 = calls w @ [?c1, ?c2]"
    by (simp only: st2) simp
  then have len3: "?n + 1 < length (calls ?w3)" and c3: "calls ?w3 ! (?n + 1) = ?c2"
    by (simp_all add: nth_append)
  have second: "result (ui ?w5) = res2 \<and> rate (ui ?w5) = rt2
      \<and> history (ui ?w5) = JArr (take 50 (record_of u2 f2 t2 a2 res2 rt2 at2 # h))"
    if o2: "outcome2 = Resolved p2" and d2: "destructure p2 = Inr (res2, rt2, at2)"
  proof -
    have "ui (step ?w3 (ConvertSettled (?n + 1) (Resolved p2) u2))
        = (ui ?w3)\<lparr>result := res2, rate := rt2, loading := False,
             history := JArr (take 50 (record_of u2 (c_from (calls ?w3 ! (?n + 1)))
                (c_to (calls ?w3 ! (?n + 1))) (c_amount (calls ?w3 ! (?n + 1))) res2 rt2 at2 # h))\<rparr>"
      by (rule settled_success) (simp_all only: len3 c3 d2 call.simps spread.simps)
    then show ?thesis
      by (simp only: o2 c3 call.simps) simp
  qed
  have keep: "\<not> settles ?n (ConvertSettled (?n + 1) outcome2 u2)"
    by simp
  from calls3 have "?n < length (calls ?w3)" and "calls ?w3 ! ?n = ?c1"
    by (simp_all add: nth_append)
  with keep have "?n < length (calls ?w4)" and "calls ?w4 ! ?n = ?c1"
    using step_keeps_call [of ?n ?w3 "ConvertSettled (?n + 1) outcome2 u2"] by simp_all
  then have len5: "?n < length (calls ?w5)" and c5: "calls ?w5 ! ?n = ?c1"
    by (simp_all only: commit_keeps)
  from c5 have aw5: "awaiting (calls ?w5 ! ?n)"
    by (simp only: call.simps)
  have first: "result (ui ?wf) = res1 \<and> rate (ui ?wf) = rt1
      \<and> history (ui ?wf) = JArr (take 50 (record_of u1 (from_cur (ui w)) (to_cur (ui w))
                                            (amount (ui w)) res1 rt1 at1 # h))"
    if o1: "outcome1 = Resolved p1" and d1: "destructure p1 = Inr (res1, rt1, at1)"
  proof -
    have "ui (step ?w5 (ConvertSettled ?n (Resolved p1) u1))
        = (ui ?w5)\<lparr>result := res1, rate := rt1, loading := False,
             history := JArr (take 50 (record_of u1 (c_from (calls ?w5 ! ?n))
                (c_to (calls ?w5 ! ?n)) (c_amount (calls ?w5 ! ?n)) res1 rt1 at1 # h))\<rparr>"
      by (rule settled_success) (simp_all only: len5 c5 d1 call.simps spread.simps)
    then show ?thesis
      by (simp only: o1 c5 call.simps) simp
  qed
  have failed: "result (ui ?wf) = result (ui ?w5) \<and> rate (ui ?wf) = rate (ui ?w5)
      \<and> history (ui ?wf) = history (ui ?w5)
      \<and> alerts ?wf = alerts ?w5 @ [str ''Conversion failed. Please try again.'']
      \<and> console ?wf = console ?w5 @ [e]"
    if f1: "outcome1 = Rejected e
      \<or> (e = TypeError \<and> (outcome1 = Resolved JNull \<or> outcome1 = Resolved JUndefined))"
    using settled_failure(1-3) [OF len5 aw5 f1, of u1]
    by (simp only: commit_keeps) simp
  have "loading (ui (onConvert_settled c outcome1 u1 v)) = False" for c v
    by (auto simp: onConvert_settled_def catch_convert_def setters Let_def
             split: axios_outcome.splits sum.splits prod.splits)
  with len5 aw5 have idle: "loading (ui ?wf) = False"
    by (simp only: commit_keeps step.simps) simp
  have "run w [Submit, ChangeFrom f2, ChangeTo t2, ChangeAmount a2, Submit,
               ConvertSettled (?n + 1) outcome2 u2] = ?w5"
    and "run w [Submit, ChangeFrom f2, ChangeTo t2, ChangeAmount a2, Submit,
               ConvertSettled (?n + 1) outcome2 u2, ConvertSettled ?n outcome1 u1] = ?wf"
    and "run w [Submit] = ?w1"
    by simp_all
  with second first failed idle busy show ?thesis
    unfolding Let_def by (simp only: enabled.simps) blast
qed

theorem overlap_last_response_wins_witness:
  "amount (ui loaded) \<noteq> [] \<and> \<not> isNaN (Number (amount (ui loaded)))
   \<and> str ''2'' \<noteq> [] \<and> \<not> isNaN (Number (str ''2''))
   \<and> history (ui loaded) = JArr []
   \<and> destructure (JObj [(str ''result'', JNum (Finite 558)), (str ''rate'', JNum (Finite 279)),
                         (str ''fetchedAt'', JStr (str ''T2''))])
        = Inr (JNum (Finite 558), JNum (Finite 279), JStr (str ''T2''))
   \<and> destructure (JObj [(str ''result'', JNum (Finite 279)), (str ''rate'', JNum (Finite 279)),
                         (str ''fetchedAt'', JStr (str ''T1''))])
        = Inr (JNum (Finite 279), JNum (Finite 279), JStr (str ''T1''))
   \<and> result (ui (run loaded [Submit, ChangeFrom (str ''USD''), ChangeTo (str ''PKR''),
          ChangeAmount (str ''2''), Submit,
          ConvertSettled (length (calls loaded) + 1)
            (Resolved (JObj [(str ''result'', JNum (Finite 558)), (str ''rate'', JNum (Finite 279)),
                             (str ''fetchedAt'', JStr (str ''T2''))])) (str ''uuid-2'')]))
        = JNum (Finite 558)
   \<and> result (ui (run loaded [Submit, ChangeFrom (str ''USD''), ChangeTo (str ''PKR''),
          ChangeAmount (str ''2''), Submit,
          ConvertSettled (length (calls loaded) + 1)
            (Resolved (JObj [(str ''result'', JNum (Finite 558)), (str ''rate'', JNum (Finite 279)),
                             (str ''fetchedAt'', JStr (str ''T2''))])) (str ''uuid-2''),
          ConvertSettled (length (calls loaded))
            (Resolved (JObj [(str ''result'', JNum (Finite 279)), (str ''rate'', JNum (Finite 279)),
                             (str ''fetchedAt'', JStr (str ''T1''))])) (str ''uuid-1'')]))
        = JNum (Finite 279)
   \<and> result (ui (run loaded [Submit, ChangeFrom (str ''USD''), ChangeTo (str ''PKR''),
          ChangeAmount (str ''2''), Submit,
          ConvertSettled (length (calls loaded) + 1)
            (Resolved (JObj [(str ''result'', JNum (Finite 558)), (str ''rate'', JNum (Finite 279)),
                             (str ''fetchedAt'', JStr (str ''T2''))])) (str ''uuid-2''),
          ConvertSettled (length (calls loaded)) (Rejected NetworkError) (str ''uuid-1'')]))
        = result (ui (run loaded [Submit, ChangeFrom (str ''USD''), ChangeTo (str ''PKR''),
          ChangeAmount (str ''2''), Submit,
          ConvertSettled (length (calls loaded) + 1)
            (Resolved (JObj [(str ''result'', JNum (Finite 558)), (str ''rate'', JNum (Finite 279)),
                             (str ''fetchedAt'', JStr (str ''T2''))])) (str ''uuid-2'')]))"
proof -
  have one: "Number (str ''1'') = Finite 1" and two: "Number (str ''2'') = Finite 2"
    by (simp_all add: num_eval)
  have a: "amount (ui loaded) \<noteq> []" and b: "\<not> isNaN (Number (amount (ui loaded)))"
    by (simp_all add: loaded_eq one isNaN_def) (simp add: str_def)
  have c: "str ''2'' \<noteq> []" and d: "\<not> isNaN (Number (str ''2''))"
    by (simp_all add: two isNaN_def) (simp add: str_def)
  have e: "history (ui loaded) = JArr []"
    by (simp add: loaded_eq)
  have f2: "destructure (JObj [(str ''result'', JNum (Finite 558)), (str ''rate'', JNum (Finite 279)),
                              (str ''fetchedAt'', JStr (str ''T2''))])
        = Inr (JNum (Finite 558), JNum (Finite 279), JStr (str ''T2''))"
    by (simp add: destructure_def str_def)
  have f1: "destructure (JObj [(str ''result'', JNum (Finite 279)), (str ''rate'', JNum (Finite 279)),
                              (str ''fetchedAt'', JStr (str ''T1''))])
        = Inr (JNum (Finite 279), JNum (Finite 279), JStr (str ''T1''))"
    by (simp add: destructure_def str_def)
  from overlap_last_response_wins [OF a b c d e,
         where ?f2.0 = "str ''USD''" and ?t2.0 = "str ''PKR''" and ?u2.0 = "str ''uuid-2''"
           and ?u1.0 = "str ''uuid-1''"
           and ?outcome2.0 = "Resolved (JObj [(str ''result'', JNum (Finite 558)),
                 (str ''rate'', JNum (Finite 279)), (str ''fetchedAt'', JStr (str ''T2''))])"
           and ?p2.0 = "JObj [(str ''result'', JNum (Finite 558)),
                 (str ''rate'', JNum (Finite 279)), (str ''fetchedAt'', JStr (str ''T2''))]"
           and ?res2.0 = "JNum (Finite 558)" and ?rt2.0 = "JNum (Finite 279)"
           and ?at2.0 = "JStr (str ''T2'')"
           and ?outcome1.0 = "Resolved (JObj [(str ''result'', JNum (Finite 279)),
                 (str ''rate'', JNum (Finite 279)), (str ''fetchedAt'', JStr (str ''T1''))])"
           and ?p1.0 = "JObj [(str ''result'', JNum (Finite 279)),
                 (str ''rate'', JNum (Finite 279)), (str ''fetchedAt'', JStr (str ''T1''))]"
           and ?res1.0 = "JNum (Finite 279)" and ?rt1.0 = "JNum (Finite 279)"
           and ?at1.0 = "JStr (str ''T1'')"] f1 f2
  have g: "result (ui (run loaded [Submit, ChangeFrom (str ''USD''), ChangeTo (str ''PKR''),
          ChangeAmount (str ''2''), Submit,
          ConvertSettled (length (calls loaded) + 1)
            (Resolved (JObj [(str ''result'', JNum (Finite 558)), (str ''rate'', JNum (Finite 279)),
                             (str ''fetchedAt'', JStr (str ''T2''))])) (str ''uuid-2'')]))
        = JNum (Finite 558)
   \<and> result (ui (run loaded [Submit, ChangeFrom (str ''USD''), ChangeTo (str ''PKR''),
          ChangeAmount (str ''2''), Submit,
          ConvertSettled (length (calls loaded) + 1)
            (Resolved (JObj [(str ''result'', JNum (Finite 558)), (str ''rate'', JNum (Finite 279)),
                             (str ''fetchedAt'', JStr (str ''T2''))])) (str ''uuid-2''),
          ConvertSettled (length (calls loaded))
            (Resolved (JObj [(str ''result'', JNum (Finite 279)), (str ''rate'', JNum (Finite 279)),
                             (str ''fetchedAt'', JStr (str ''T1''))])) (str ''uuid-1'')]))
        = JNum (Finite 279)"
    unfolding Let_def by blast
  from overlap_last_response_wins [OF a b c d e,
         where ?f2.0 = "str ''USD''" and ?t2.0 = "str ''PKR''" and ?u2.0 = "str ''uuid-2''"
           and ?u1.0 = "str ''uuid-1''"
           and ?outcome2.0 = "Resolved (JObj [(str ''result'', JNum (Finite 558)),
                 (str ''rate'', JNum (Finite 279)), (str ''fetchedAt'', JStr (str ''T2''))])"
           and ?outcome1.0 = "Rejected NetworkError" and e = NetworkError]
  have h: "result (ui (run loaded [Submit, ChangeFrom (str ''USD''), ChangeTo (str ''PKR''),
          ChangeAmount (str ''2''), Submit,
          ConvertSettled (length (calls loaded) + 1)
            (Resolved (JObj [(str ''result'', JNum (Finite 558)), (str ''rate'', JNum (Finite 279)),
                             (str ''fetchedAt'', JStr (str ''T2''))])) (str ''uuid-2''),
          ConvertSettled (length (calls loaded)) (Rejected NetworkError) (str ''uuid-1'')]))
        = result (ui (run loaded [Submit, ChangeFrom (str ''USD''), ChangeTo (str ''PKR''),
          ChangeAmount (str ''2''), Submit,
          ConvertSettled (length (calls loaded) + 1)
            (Resolved (JObj [(str ''result'', JNum (Finite 558)), (str ''rate'', JNum (Finite 279)),
                             (str ''fetchedAt'', JStr (str ''T2''))])) (str ''uuid-2'')]))"
    unfolding Let_def by blast
  from a b c d e f1 f2 g h show ?thesis
    by blast
qed

section \<open>The bound on the log\<close>

lemma bounded_clear: "bounded_log (history (ui (step w Clear)))"
  by (simp add: bounded_log_def setters)

lemma bounded_settled:
  "bounded_log (history (ui w)) \<Longrightarrow> bounded_log (history (ui (onConvert_settled c outcome uuid w)))"
  by (auto simp: bounded_log_def onConvert_settled_def catch_convert_def setters Let_def
           split: axios_outcome.splits sum.splits prod.splits)

lemma bounded_step: "bounded_log (history (ui w)) \<Longrightarrow> bounded_log (history (ui (step w ev)))"
proof (cases ev)
  case (ConvertSettled i outcome uuid)
  assume "bounded_log (history (ui w))"
  then have "bounded_log (history (ui (w\<lparr>calls := (calls w)[i := (calls w ! i)\<lparr>awaiting := False\<rparr>]\<rparr>)))"
    by simp
  then show ?thesis
    unfolding ConvertSettled by (simp add: bounded_settled del: onConvert_settled_def)
next
  case (CurrenciesSettled outcome)
  assume "bounded_log (history (ui w))"
  then show ?thesis
    unfolding CurrenciesSettled
    by (auto simp: fetchCurrencies_settled_def setters Let_def split: axios_outcome.splits sum.splits)
qed (auto simp: bounded_log_def onSwap_def onConvert_def unmount_def teardown_def setters Let_def)

lemma bounded_run: "bounded_log (history (ui w)) \<Longrightarrow> bounded_log (history (ui (run w evs)))"
  by (induction evs arbitrary: w) (simp_all add: bounded_step)

lemma bounded_mount:
  "persisted_within_cap got \<Longrightarrow> bounded_log (history (ui (App_mount got wt)))"
  by (auto simp: persisted_within_cap_def bounded_log_def handlers setters Let_def
           split: completion.splits option.splits sum.splits)

lemma parse_oversized: "\<exists>h. JSON_parse oversized = Inr (JArr h) \<and> length h = 51"
  by (simp add: oversized_def json_eval num_eval Let_def)

text \<open>
  The claim C3, that the log has at most 50 entries at all times, the load of the persisted
  sequence at startup included, fails at a slot that holds 51 entries: the load hands on
  what \<open>JSON.parse\<close> returns and cuts nothing, so the log starts with 51 entries.
\<close>

theorem oversized_slot_is_loaded_whole:
  "log_length (history (ui (App_mount (Returns (Some oversized)) False))) = Some 51
   \<and> \<not> bounded_log (history (ui (App_mount (Returns (Some oversized)) False)))"
proof -
  from parse_oversized obtain h where "JSON_parse oversized = Inr (JArr h)" and "length h = 51"
    by blast
  then show ?thesis
    by (simp add: load_is_verbatim log_length_def bounded_log_def)
qed

text \<open>
  Claim C3, amended. The load at startup returns the persisted value as it is; when the
  slot cannot be read, is absent, does not parse, or holds a sequence of at most 50
  entries, the log is a sequence of at most 50 entries after the load and after every
  sequence of events. Clearing, and every append, leave at most 50 entries whatever the
  log was before.
\<close>

theorem log_bounded_when_slot_is:
  "(persisted_within_cap got \<longrightarrow> bounded_log (history (ui (run (App_mount got wt) evs))))
   \<and> (JSON_parse item = Inr v \<longrightarrow> history (ui (App_mount (Returns (Some item)) wt)) = v)
   \<and> bounded_log (history (ui (step w Clear)))
   \<and> (i < length (calls w) \<and> awaiting (calls w ! i) \<and> destructure payload = Inr (res, rt, fetchedAt)
        \<and> spread (c_history (calls w ! i)) = Inr hs
       \<longrightarrow> bounded_log (history (ui (step w (ConvertSettled i (Resolved payload) uuid)))))"
proof -
  have "bounded_log (history (ui (step w (ConvertSettled i (Resolved payload) uuid))))"
    if "i < length (calls w)" "awaiting (calls w ! i)" "destructure payload = Inr (res, rt, fetchedAt)"
       "spread (c_history (calls w ! i)) = Inr hs"
    using settled_success [OF that, of uuid] by (simp add: bounded_log_def)
  then show ?thesis
    using bounded_run [OF bounded_mount, of got wt evs] load_is_verbatim [of item v wt]
      bounded_clear [of w]
    by blast
qed

lemma parse_single:
  "JSON_parse (str ''[{\"result\":1}]'') = Inr (JArr [JObj [(str ''result'', JNum (Finite 1))]])"
  by (simp add: json_eval num_eval Let_def)

theorem log_bounded_when_slot_is_witness:
  "persisted_within_cap (Returns (Some (str ''[{\"result\":1}]'')))
   \<and> bounded_log (history (ui (run (App_mount (Returns (Some (str ''[{\"result\":1}]''))) False)
                                   [CurrenciesSettled (Rejected NetworkError), Swap, Clear])))
   \<and> JSON_parse (str ''[{\"result\":1}]'') = Inr (JArr [JObj [(str ''result'', JNum (Finite 1))]])
   \<and> history (ui (App_mount (Returns (Some (str ''[{\"result\":1}]''))) False))
        = JArr [JObj [(str ''result'', JNum (Finite 1))]]
   \<and> 0 < length (calls (step loaded Submit)) \<and> awaiting (calls (step loaded Submit) ! 0)
   \<and> destructure (JObj []) = Inr (JUndefined, JUndefined, JUndefined)
   \<and> spread (c_history (calls (step loaded Submit) ! 0)) = Inr []
   \<and> bounded_log (history (ui (step (step loaded Submit)
                                     (ConvertSettled 0 (Resolved (JObj [])) (str ''uuid-1'')))))"
proof -
  have a: "persisted_within_cap (Returns (Some (str ''[{\"result\":1}]'')))"
    by (simp add: persisted_within_cap_def parse_single bounded_log_def)
  have one: "Number (str ''1'') = Finite 1"
    by (simp add: num_eval)
  have "amount (ui loaded) \<noteq> []" and "\<not> isNaN (Number (amount (ui loaded)))"
    by (simp_all add: loaded_eq one isNaN_def) (simp add: str_def)
  then have "calls (onConvert loaded) = [\<lparr>c_from = str ''USD'', c_to = str ''PKR'', c_amount = str ''1'',
      c_history = JArr [], awaiting = True\<rparr>]"
    by (simp add: submit_call) (simp add: loaded_eq)
  then have b: "0 < length (calls (step loaded Submit)) \<and> awaiting (calls (step loaded Submit) ! 0)
      \<and> destructure (JObj []) = Inr (JUndefined, JUndefined, JUndefined)
      \<and> spread (c_history (calls (step loaded Submit) ! 0)) = Inr []"
    by (simp add: destructure_def)
  from log_bounded_when_slot_is
         [where got = "Returns (Some (str ''[{\"result\":1}]''))" and wt = False
            and evs = "[CurrenciesSettled (Rejected NetworkError), Swap, Clear]"
            and item = "str ''[{\"result\":1}]''"
            and v = "JArr [JObj [(str ''result'', JNum (Finite 1))]]"
            and i = 0 and w = "step loaded Submit" and payload = "JObj []"
            and res = JUndefined and rt = JUndefined and fetchedAt = JUndefined
            and hs = "[]" and uuid = "str ''uuid-1''"]
       a b parse_single
  show ?thesis
    by blast
qed

end
